theory Spec2Isabelle
  imports Main "HOL-Library.Word"
begin

section \<open>Declared resources (api/v1alpha1)\<close>

text \<open>
  The part of \<open>metav1.ObjectMeta\<close> the reconcilers read or write. A zero
  \<open>DeletionTimestamp\<close> is \<open>None\<close>; a nil annotation map is \<open>None\<close>, a non-nil
  one an association list (first binding of a key wins). Go maps carry no order: the
  order of an association list is an artefact of the model.
\<close>

record OwnerReference =
  OwnerKind :: string
  OwnerName :: string
  Controller :: bool

record ObjectMeta =
  Name :: string
  Namespace :: string
  Generation :: int
  DeletionTimestamp :: "nat option"
  Finalizers :: "string list"
  Annotations :: "(string \<times> string) list option"
  Labels :: "(string \<times> string) list"
  OwnerReferences :: "OwnerReference list"

datatype ConditionStatus = ConditionTrue | ConditionFalse | ConditionUnknown

record Condition =
  Type :: string
  CStatus :: ConditionStatus
  Reason :: string
  Message :: string
  ObservedGeneration :: int
  LastTransitionTime :: "nat option"

record VirtualMachineSpec =
  CPUs :: "32 word"
  Memory :: string
  DiskSize :: string
  OS :: string
  OSVersion :: string
  CloudInit :: string
  SSHKeys :: "string list"
  RunStrategy :: string
  StorageClass :: string

record VirtualMachineStatus =
  Phase :: string
  Node :: string
  IPAddress :: string
  Ready :: bool
  Conditions :: "Condition list"

record VirtualMachine =
  Meta :: ObjectMeta
  Spec :: VirtualMachineSpec
  Status :: VirtualMachineStatus

definition PhaseRunning :: string where
  "PhaseRunning = ''Running''"

definition PhasePending :: string where
  "PhasePending = ''Pending''"

subsection \<open>The OS image table\<close>

definition OSImageMap :: "(string \<times> string) list" where
  "OSImageMap =
    [(''ubuntu'', ''quay.io/containerdisks/ubuntu:22.04''),
     (''fedora'', ''quay.io/containerdisks/fedora:39''),
     (''debian'', ''quay.io/containerdisks/debian:12''),
     (''centos'', ''quay.io/containerdisks/centos-stream:9''),
     (''alpine'', ''quay.io/containerdisks/alpine:3.19''),
     (''cirros'', ''quay.io/kubevirt/cirros-container-disk-demo:latest''),
     (''freebsd'', ''quay.io/containerdisks/freebsd:13.2'')]"

text \<open>Indexing a Go map: the zero value (the empty string) for a missing key.\<close>

definition index_map :: "(string \<times> string) list \<Rightarrow> string \<Rightarrow> string" where
  "index_map m k = (case map_of m k of Some v \<Rightarrow> v | None \<Rightarrow> '''')"

text \<open>
  The loop of \<open>splitImageTag\<close>: \<open>scan_colon img n\<close> looks at the positions
  \<open>n - 1\<close> down to \<open>0\<close> and returns the first one holding a colon, or \<open>-1\<close>.
\<close>

fun scan_colon :: "string \<Rightarrow> nat \<Rightarrow> int" where
  "scan_colon img 0 = - 1"
| "scan_colon img (Suc i) =
     (if img ! i = CHR '':'' then int i else scan_colon img i)"

definition splitImageTag :: "string \<Rightarrow> string list" where
  "splitImageTag img =
     (let idx = scan_colon img (length img)
      in if idx > 0 then [take (nat idx) img, drop (nat idx + 1) img]
         else [img, ''latest''])"

definition GetImageForOS :: "string \<Rightarrow> string \<Rightarrow> string" where
  "GetImageForOS os version =
     (let versioned =
        (if version \<noteq> '''' then
           (case map_of OSImageMap (os @ '':'' @ version) of
              Some img \<Rightarrow> Some img
            | None \<Rightarrow>
               (let baseImage = index_map OSImageMap os
                in if baseImage \<noteq> ''''
                   then Some (splitImageTag baseImage ! 0 @ '':'' @ version)
                   else None))
         else None)
      in case versioned of
           Some img \<Rightarrow> img
         | None \<Rightarrow>
            (case map_of OSImageMap os of
               Some img \<Rightarrow> img
             | None \<Rightarrow> index_map OSImageMap ''cirros''))"

section \<open>Unstructured objects\<close>

text \<open>
  \<open>unstructured.Unstructured\<close> is a nested \<open>map[string]interface{}\<close>; the values
  the controller builds and reads are strings, integers, lists and maps.
\<close>

datatype json =
  JString string
| JInt int
| JList "json list"
| JObject "(string \<times> json) list"

type_synonym unstructured = "(string \<times> json) list"

fun field :: "string \<Rightarrow> json \<Rightarrow> json option" where
  "field k (JObject kvs) = map_of kvs k"
| "field k _ = None"

fun NestedField :: "json \<Rightarrow> string list \<Rightarrow> json option" where
  "NestedField j [] = Some j"
| "NestedField j (k # ks) =
     (case field k j of None \<Rightarrow> None | Some v \<Rightarrow> NestedField v ks)"

section \<open>The desired KubeVirt VM object\<close>

definition newline :: char where
  "newline = CHR 0x0A"

fun Join :: "string list \<Rightarrow> string \<Rightarrow> string" where
  "Join [] sep = ''''"
| "Join [x] sep = x"
| "Join (x # y # ys) sep = x @ sep @ Join (y # ys) sep"

definition cloudInitUserData :: "VirtualMachineSpec \<Rightarrow> string" where
  "cloudInitUserData s =
     (if CloudInit s = '''' \<and> length (SSHKeys s) > 0
      then ''#cloud-config'' @ [newline] @ ''ssh_authorized_keys:'' @ [newline]
             @ Join (SSHKeys s) [newline]
      else CloudInit s)"

definition virtio_disk :: "string \<Rightarrow> json" where
  "virtio_disk n =
     JObject [(''name'', JString n), (''disk'', JObject [(''bus'', JString ''virtio'')])]"

definition buildKubeVirtVM :: "VirtualMachine \<Rightarrow> unstructured" where
  "buildKubeVirtVM vm =
     (let runStrategy = (if RunStrategy (Spec vm) = '''' then ''Always''
                         else RunStrategy (Spec vm));
          userData = cloudInitUserData (Spec vm);
          disks0 = [virtio_disk ''containerdisk'', virtio_disk ''datadisk''];
          volumes0 =
            [JObject [(''name'', JString ''containerdisk''),
                      (''containerDisk'', JObject
                         [(''image'', JString (GetImageForOS (OS (Spec vm))
                                                 (OSVersion (Spec vm))))])],
             JObject [(''name'', JString ''datadisk''),
                      (''dataVolume'', JObject
                         [(''name'', JString (Name (Meta vm) @ ''-disk''))])]];
          disks = (if userData \<noteq> '''' then disks0 @ [virtio_disk ''cloudinitdisk'']
                   else disks0);
          volumes =
            (if userData \<noteq> ''''
             then volumes0 @
                    [JObject [(''name'', JString ''cloudinitdisk''),
                              (''cloudInitNoCloud'', JObject
                                 [(''userData'', JString userData)])]]
             else volumes0);
          diskSize = (if DiskSize (Spec vm) = '''' then ''10Gi'' else DiskSize (Spec vm));
          storageClass = (if StorageClass (Spec vm) = '''' then ''local-path''
                          else StorageClass (Spec vm))
      in   [(''apiVersion'', JString ''kubevirt.io/v1''),
            (''kind'', JString ''VirtualMachine''),
            (''metadata'', JObject
               [(''name'', JString (Name (Meta vm))),
                (''namespace'', JString (Namespace (Meta vm))),
                (''labels'', JObject [(''llmcloud.io/managed'', JString ''true'')])]),
            (''spec'', JObject
               [(''runStrategy'', JString runStrategy),
                (''dataVolumeTemplates'', JList
                   [JObject
                      [(''metadata'', JObject
                          [(''name'', JString (Name (Meta vm) @ ''-disk''))]),
                       (''spec'', JObject
                          [(''source'', JObject [(''blank'', JObject [])]),
                           (''storage'', JObject
                              [(''accessModes'', JList [JString ''ReadWriteOnce'']),
                               (''resources'', JObject
                                  [(''requests'', JObject
                                      [(''storage'', JString diskSize)])]),
                               (''storageClassName'', JString storageClass)])])]]),
                (''template'', JObject
                   [(''spec'', JObject
                       [(''domain'', JObject
                           [(''cpu'', JObject [(''cores'', JInt (sint (CPUs (Spec vm))))]),
                            (''resources'', JObject
                               [(''requests'', JObject
                                   [(''memory'', JString (Memory (Spec vm)))])]),
                            (''devices'', JObject [(''disks'', JList disks)])]),
                        (''volumes'', JList volumes)])])])])"


section \<open>Workspace (Project) resources\<close>

record ProjectMember =
  Username :: string
  Role :: string

record ProjectSpec =
  Description :: string
  Members :: "ProjectMember list"

record ProjectStatus =
  StatusNamespace :: string
  StatusPhase :: string
  VMCount :: "32 word"
  LLMModelCount :: "32 word"
  ServiceCount :: "32 word"
  StatusConditions :: "Condition list"

record Project =
  PMeta :: ObjectMeta
  PSpec :: ProjectSpec
  PStatus :: ProjectStatus

record NamespaceObj =
  NsMeta :: ObjectMeta

record Subject =
  SubjectKind :: string
  SubjectName :: string

record RoleRef =
  APIGroup :: string
  RoleKind :: string
  RoleName :: string

record RoleBinding =
  RbMeta :: ObjectMeta
  Subjects :: "Subject list"
  RoleRefOf :: RoleRef

section \<open>The Resource Store\<close>

text \<open>
  The reconcilers reach the cluster through \<open>client.Client\<close> only. The store behind
  it is an external collaborator: an object store keyed by kind, namespace and name, with
  get, create, update, patch and delete. It is modelled here as a record with one
  component per kind the two reconcilers touch. Every call can also fail for a reason of the
  store's own (a stale version, an unavailable server): the \<open>faults\<close> script holds the
  outcome the store imposes on each successive call, \<open>None\<close> for none. A not-found
  error is never scripted: it arises exactly when the object is absent. Every call and its
  outcome is appended to the history \<open>calls\<close>.
\<close>

datatype error =
  NotFound
| AlreadyExists
| Conflict
| ServerFailure string
| Invalid string
| Wrapped string error

datatype fault = StaleVersion | Unavailable string

fun fault_error :: "fault \<Rightarrow> error" where
  "fault_error StaleVersion = Conflict"
| "fault_error (Unavailable msg) = ServerFailure msg"

text \<open>\<open>errors.IsNotFound\<close> and \<open>errors.IsConflict\<close> look through wrapped errors.\<close>

fun IsNotFound :: "error \<Rightarrow> bool" where
  "IsNotFound NotFound = True"
| "IsNotFound (Wrapped msg e) = IsNotFound e"
| "IsNotFound _ = False"


definition IgnoreNotFound :: "error option \<Rightarrow> error option" where
  "IgnoreNotFound r = (case r of None \<Rightarrow> None
                       | Some e \<Rightarrow> if IsNotFound e then None else Some e)"

text \<open>\<open>err.Error()\<close>: the text of an error; \<open>%w\<close> prefixes the wrapped one's.\<close>

fun Error_text :: "error \<Rightarrow> string" where
  "Error_text NotFound = ''not found''"
| "Error_text AlreadyExists = ''already exists''"
| "Error_text Conflict = ''the object has been modified''"
| "Error_text (ServerFailure msg) = msg"
| "Error_text (Invalid msg) = msg"
| "Error_text (Wrapped msg e) = msg @ '': '' @ Error_text e"

fun err_of :: "error + 'a \<Rightarrow> error option" where
  "err_of (Inl e) = Some e"
| "err_of (Inr x) = None"

subsection \<open>unstructured: nested fields\<close>

fun set_key :: "string \<Rightarrow> json \<Rightarrow> unstructured \<Rightarrow> unstructured" where
  "set_key k v [] = [(k, v)]"
| "set_key k v ((k', v') # m) = (if k' = k then (k, v) # m else (k', v') # set_key k v m)"

text \<open>
  \<open>unstructured.SetNestedField\<close>: walks the path, creating missing maps, and fails on
  a value on the way that is not a map.
\<close>

fun SetNestedField :: "unstructured \<Rightarrow> json \<Rightarrow> string list \<Rightarrow> error + unstructured" where
  "SetNestedField obj v [] = Inr obj"
| "SetNestedField obj v [f] = Inr (set_key f v obj)"
| "SetNestedField obj v (f # g # fs) =
     (case map_of obj f of
        Some (JObject sub) \<Rightarrow>
          (case SetNestedField sub v (g # fs) of
             Inl e \<Rightarrow> Inl e
           | Inr sub' \<Rightarrow> Inr (set_key f (JObject sub') obj))
      | Some other \<Rightarrow> Inl (Invalid ''value cannot be set: not a map'')
      | None \<Rightarrow>
          (case SetNestedField [] v (g # fs) of
             Inl e \<Rightarrow> Inl e
           | Inr sub' \<Rightarrow> Inr (set_key f (JObject sub') obj)))"

text \<open>\<open>unstructured.NestedMap\<close> with its found flag and error dropped: a nil map
  when the field is missing or not a map.\<close>

definition NestedMap :: "unstructured \<Rightarrow> string \<Rightarrow> unstructured" where
  "NestedMap obj f = (case map_of obj f of Some (JObject m) \<Rightarrow> m | _ \<Rightarrow> [])"

type_synonym key = "string \<times> string"

datatype call =
  GetVM key
| UpdateVM VirtualMachine
| StatusUpdateVM VirtualMachine
| GetKubeVirtVM key
| UpdateKubeVirtVM key unstructured
| PatchKubeVirtVM key unstructured
| DeleteKubeVirtVM key
| GetVMI key
| GetProject string
| UpdateProject Project
| StatusUpdateProject Project
| GetNamespace string
| CreateNamespace NamespaceObj
| UpdateNamespace NamespaceObj
| GetRoleBinding key
| CreateRoleBinding RoleBinding
| UpdateRoleBinding RoleBinding

text \<open>
  Typed objects carry their identity (namespace and name) in their metadata: a store of
  them is a list, and an object is found by its key. The three operations below are the
  store's get, update and delete on such a list; create appends.
\<close>

definition stored :: "('a \<Rightarrow> 'k) \<Rightarrow> 'k \<Rightarrow> 'a list \<Rightarrow> 'a option" where
  "stored kf k xs = find (\<lambda>x. kf x = k) xs"

definition overwrite :: "('a \<Rightarrow> 'k) \<Rightarrow> 'a \<Rightarrow> 'a list \<Rightarrow> 'a list" where
  "overwrite kf new xs = map (\<lambda>x. if kf x = kf new then new else x) xs"

definition discard :: "('a \<Rightarrow> 'k) \<Rightarrow> 'k \<Rightarrow> 'a list \<Rightarrow> 'a list" where
  "discard kf k xs = filter (\<lambda>x. kf x \<noteq> k) xs"

record world =
  vms :: "VirtualMachine list"
  kvvms :: "key \<rightharpoonup> unstructured"
  vmis :: "key \<rightharpoonup> unstructured"
  projects :: "Project list"
  namespaces :: "NamespaceObj list"
  rolebindings :: "RoleBinding list"
  faults :: "fault option list"
  calls :: "(call \<times> error option) list"

text \<open>The outcome the store imposes on the next call, if any.\<close>

definition pending :: "world \<Rightarrow> error option" where
  "pending w = (case faults w of [] \<Rightarrow> None | f # fs \<Rightarrow> map_option fault_error f)"

text \<open>A call has been answered: its script entry is used up and it enters the history.\<close>

definition answered :: "call \<Rightarrow> error option \<Rightarrow> world \<Rightarrow> world" where
  "answered c r w = w\<lparr>faults := tl (faults w), calls := calls w @ [(c, r)]\<rparr>"

text \<open>
  One round trip: a scripted fault is the outcome and leaves the store untouched;
  otherwise the operation \<open>f\<close> runs against the store.
\<close>

definition api_call ::
  "call \<Rightarrow> (world \<Rightarrow> (error + 'a) \<times> world) \<Rightarrow> world \<Rightarrow> (error + 'a) \<times> world" where
  "api_call c f w =
     (case pending w of
        Some e \<Rightarrow> (Inl e, answered c (Some e) w)
      | None \<Rightarrow>
          (case f w of
             (Inl e, w1) \<Rightarrow> (Inl e, answered c (Some e) w1)
           | (Inr x, w1) \<Rightarrow> (Inr x, answered c None w1)))"

definition vm_key :: "VirtualMachine \<Rightarrow> key" where
  "vm_key vm = (Namespace (Meta vm), Name (Meta vm))"

definition Get_vm :: "key \<Rightarrow> world \<Rightarrow> (error + VirtualMachine) \<times> world" where
  "Get_vm k = api_call (GetVM k)
     (\<lambda>w. case stored vm_key k (vms w) of
            None \<Rightarrow> (Inl NotFound, w)
          | Some vm \<Rightarrow> (Inr vm, w))"

text \<open>
  \<open>Update\<close> of a resource with a status subresource writes metadata and spec and keeps
  the stored status; the caller's object is refreshed from the answer. The store keeps no
  empty annotation map: an emptied one comes back as no map at all. The store removes
  an object that carries a deletion timestamp once its last finalizer is gone.
\<close>

definition storedMeta :: "ObjectMeta \<Rightarrow> ObjectMeta" where
  "storedMeta m = (case Annotations m of Some [] \<Rightarrow> m\<lparr>Annotations := None\<rparr> | _ \<Rightarrow> m)"

definition Update_vm :: "VirtualMachine \<Rightarrow> world \<Rightarrow> (error + VirtualMachine) \<times> world" where
  "Update_vm vm = api_call (UpdateVM vm)
     (\<lambda>w. case stored vm_key (vm_key vm) (vms w) of
            None \<Rightarrow> (Inl NotFound, w)
          | Some old \<Rightarrow>
              (let new = vm\<lparr>Meta := storedMeta (Meta vm), Status := Status old\<rparr>
               in if DeletionTimestamp (Meta new) \<noteq> None \<and> Finalizers (Meta new) = []
                  then (Inr new, w\<lparr>vms := discard vm_key (vm_key vm) (vms w)\<rparr>)
                  else (Inr new, w\<lparr>vms := overwrite vm_key new (vms w)\<rparr>)))"

text \<open>\<open>Status().Update\<close> writes the status only.\<close>

definition Status_Update_vm ::
  "VirtualMachine \<Rightarrow> world \<Rightarrow> (error + VirtualMachine) \<times> world" where
  "Status_Update_vm vm = api_call (StatusUpdateVM vm)
     (\<lambda>w. case stored vm_key (vm_key vm) (vms w) of
            None \<Rightarrow> (Inl NotFound, w)
          | Some old \<Rightarrow>
              (let new = old\<lparr>Status := Status vm\<rparr>
               in (Inr new, w\<lparr>vms := overwrite vm_key new (vms w)\<rparr>)))"

text \<open>
  An unstructured object is addressed by the key it was fetched or built under (its
  \<open>metadata.namespace\<close> and \<open>metadata.name\<close>).
\<close>

definition Get_kubevirt_vm :: "key \<Rightarrow> world \<Rightarrow> (error + unstructured) \<times> world" where
  "Get_kubevirt_vm k = api_call (GetKubeVirtVM k)
     (\<lambda>w. case kvvms w k of None \<Rightarrow> (Inl NotFound, w) | Some obj \<Rightarrow> (Inr obj, w))"

definition Update_kubevirt_vm ::
  "key \<Rightarrow> unstructured \<Rightarrow> world \<Rightarrow> (error + unstructured) \<times> world" where
  "Update_kubevirt_vm k obj = api_call (UpdateKubeVirtVM k obj)
     (\<lambda>w. case kvvms w k of
            None \<Rightarrow> (Inl NotFound, w)
          | Some old \<Rightarrow> (Inr obj, w\<lparr>kvvms := (kvvms w)(k \<mapsto> obj)\<rparr>))"

text \<open>
  Server-side apply with forced ownership: the store merges the desired object into the
  stored one, or creates it. How it merges is the store's business and a parameter
  \<open>ssa\<close> of the model: \<open>ssa desired existing\<close> is the object stored afterwards.
\<close>

type_synonym apply_fn = "unstructured \<Rightarrow> unstructured option \<Rightarrow> unstructured"

definition Patch_kubevirt_vm ::
  "apply_fn \<Rightarrow> key \<Rightarrow> unstructured \<Rightarrow> world \<Rightarrow> (error + unit) \<times> world" where
  "Patch_kubevirt_vm ssa k desired = api_call (PatchKubeVirtVM k desired)
     (\<lambda>w. (Inr (), w\<lparr>kvvms := (kvvms w)(k \<mapsto> ssa desired (kvvms w k))\<rparr>))"

text \<open>
  Delete. An object that carries finalizers of its own is not removed: the store stamps
  its \<open>metadata.deletionTimestamp\<close> (with its logical time, the number of calls
  answered so far; an earlier stamp is kept) and answers success, and the object stays
  stored until its finalizers are cleared by their owners. An object without finalizers is
  removed at once.
\<close>

definition hasFinalizers :: "unstructured \<Rightarrow> bool" where
  "hasFinalizers obj =
     (case NestedField (JObject obj) [''metadata'', ''finalizers''] of
        Some (JList (f # fs)) \<Rightarrow> True
      | _ \<Rightarrow> False)"

definition markDeleted :: "nat \<Rightarrow> unstructured \<Rightarrow> unstructured" where
  "markDeleted t obj =
     (case NestedField (JObject obj) [''metadata'', ''deletionTimestamp''] of
        Some stamp \<Rightarrow> obj
      | None \<Rightarrow>
          (case SetNestedField obj (JInt (int t)) [''metadata'', ''deletionTimestamp''] of
             Inr obj' \<Rightarrow> obj'
           | Inl e \<Rightarrow> obj))"

definition Delete_kubevirt_vm :: "key \<Rightarrow> world \<Rightarrow> (error + unit) \<times> world" where
  "Delete_kubevirt_vm k = api_call (DeleteKubeVirtVM k)
     (\<lambda>w. case kvvms w k of
            None \<Rightarrow> (Inl NotFound, w)
          | Some obj \<Rightarrow>
              if hasFinalizers obj
              then (Inr (), w\<lparr>kvvms := (kvvms w)(k \<mapsto> markDeleted (length (calls w)) obj)\<rparr>)
              else (Inr (), w\<lparr>kvvms := (kvvms w)(k := None)\<rparr>))"

definition Get_vmi :: "key \<Rightarrow> world \<Rightarrow> (error + unstructured) \<times> world" where
  "Get_vmi k = api_call (GetVMI k)
     (\<lambda>w. case vmis w k of None \<Rightarrow> (Inl NotFound, w) | Some obj \<Rightarrow> (Inr obj, w))"

text \<open>Projects and namespaces are cluster-scoped: the name alone is the key.\<close>

definition project_key :: "Project \<Rightarrow> string" where
  "project_key p = Name (PMeta p)"

definition ns_key :: "NamespaceObj \<Rightarrow> string" where
  "ns_key ns = Name (NsMeta ns)"

definition rb_key :: "RoleBinding \<Rightarrow> key" where
  "rb_key rb = (Namespace (RbMeta rb), Name (RbMeta rb))"

definition Get_project :: "key \<Rightarrow> world \<Rightarrow> (error + Project) \<times> world" where
  "Get_project k = api_call (GetProject (snd k))
     (\<lambda>w. case stored project_key (snd k) (projects w) of
            None \<Rightarrow> (Inl NotFound, w)
          | Some p \<Rightarrow> (Inr p, w))"

definition Update_project :: "Project \<Rightarrow> world \<Rightarrow> (error + Project) \<times> world" where
  "Update_project p = api_call (UpdateProject p)
     (\<lambda>w. case stored project_key (project_key p) (projects w) of
            None \<Rightarrow> (Inl NotFound, w)
          | Some old \<Rightarrow>
              (let new = p\<lparr>PMeta := storedMeta (PMeta p), PStatus := PStatus old\<rparr>
               in if DeletionTimestamp (PMeta new) \<noteq> None \<and> Finalizers (PMeta new) = []
                  then (Inr new, w\<lparr>projects := discard project_key (project_key p) (projects w)\<rparr>)
                  else (Inr new, w\<lparr>projects := overwrite project_key new (projects w)\<rparr>)))"

definition Status_Update_project :: "Project \<Rightarrow> world \<Rightarrow> (error + Project) \<times> world" where
  "Status_Update_project p = api_call (StatusUpdateProject p)
     (\<lambda>w. case stored project_key (project_key p) (projects w) of
            None \<Rightarrow> (Inl NotFound, w)
          | Some old \<Rightarrow>
              (let new = old\<lparr>PStatus := PStatus p\<rparr>
               in (Inr new, w\<lparr>projects := overwrite project_key new (projects w)\<rparr>)))"

definition Get_namespace :: "string \<Rightarrow> world \<Rightarrow> (error + NamespaceObj) \<times> world" where
  "Get_namespace n = api_call (GetNamespace n)
     (\<lambda>w. case stored ns_key n (namespaces w) of
            None \<Rightarrow> (Inl NotFound, w)
          | Some ns \<Rightarrow> (Inr ns, w))"

definition Create_namespace :: "NamespaceObj \<Rightarrow> world \<Rightarrow> (error + unit) \<times> world" where
  "Create_namespace ns = api_call (CreateNamespace ns)
     (\<lambda>w. case stored ns_key (ns_key ns) (namespaces w) of
            Some old \<Rightarrow> (Inl AlreadyExists, w)
          | None \<Rightarrow> (Inr (), w\<lparr>namespaces := namespaces w @ [ns]\<rparr>))"

definition Update_namespace :: "NamespaceObj \<Rightarrow> world \<Rightarrow> (error + unit) \<times> world" where
  "Update_namespace ns = api_call (UpdateNamespace ns)
     (\<lambda>w. case stored ns_key (ns_key ns) (namespaces w) of
            None \<Rightarrow> (Inl NotFound, w)
          | Some old \<Rightarrow> (Inr (), w\<lparr>namespaces := overwrite ns_key ns (namespaces w)\<rparr>))"

definition Get_rolebinding :: "key \<Rightarrow> world \<Rightarrow> (error + RoleBinding) \<times> world" where
  "Get_rolebinding k = api_call (GetRoleBinding k)
     (\<lambda>w. case stored rb_key k (rolebindings w) of
            None \<Rightarrow> (Inl NotFound, w)
          | Some rb \<Rightarrow> (Inr rb, w))"

definition Create_rolebinding :: "RoleBinding \<Rightarrow> world \<Rightarrow> (error + unit) \<times> world" where
  "Create_rolebinding rb = api_call (CreateRoleBinding rb)
     (\<lambda>w. case stored rb_key (rb_key rb) (rolebindings w) of
            Some old \<Rightarrow> (Inl AlreadyExists, w)
          | None \<Rightarrow> (Inr (), w\<lparr>rolebindings := rolebindings w @ [rb]\<rparr>))"

definition Update_rolebinding :: "RoleBinding \<Rightarrow> world \<Rightarrow> (error + unit) \<times> world" where
  "Update_rolebinding rb = api_call (UpdateRoleBinding rb)
     (\<lambda>w. case stored rb_key (rb_key rb) (rolebindings w) of
            None \<Rightarrow> (Inl NotFound, w)
          | Some old \<Rightarrow> (Inr (), w\<lparr>rolebindings := overwrite rb_key rb (rolebindings w)\<rparr>))"

section \<open>Library helpers the reconcilers call\<close>

subsection \<open>controllerutil: finalizers\<close>

definition ContainsFinalizer :: "ObjectMeta \<Rightarrow> string \<Rightarrow> bool" where
  "ContainsFinalizer m f = (f \<in> set (Finalizers m))"

definition AddFinalizer :: "ObjectMeta \<Rightarrow> string \<Rightarrow> ObjectMeta" where
  "AddFinalizer m f =
     (if f \<in> set (Finalizers m) then m else m\<lparr>Finalizers := Finalizers m @ [f]\<rparr>)"

definition RemoveFinalizer :: "ObjectMeta \<Rightarrow> string \<Rightarrow> ObjectMeta" where
  "RemoveFinalizer m f = m\<lparr>Finalizers := filter (\<lambda>e. e \<noteq> f) (Finalizers m)\<rparr>"

subsection \<open>meta.SetStatusCondition\<close>

text \<open>
  The first condition of the same type is updated in place; its transition time moves
  only when the status changes. A new type is appended, stamped with the current time
  when it brings none. \<open>now\<close> is the reading of the clock.
\<close>

fun update_condition :: "nat \<Rightarrow> Condition \<Rightarrow> Condition list \<Rightarrow> Condition list" where
  "update_condition now new [] = []"
| "update_condition now new (c # cs) =
     (if Type c = Type new then
        (let c1 = (if CStatus c \<noteq> CStatus new
                   then c\<lparr>CStatus := CStatus new,
                          LastTransitionTime :=
                            (if LastTransitionTime new \<noteq> None then LastTransitionTime new
                             else Some now)\<rparr>
                   else c)
         in c1\<lparr>Reason := Reason new, Message := Message new,
                ObservedGeneration := ObservedGeneration new\<rparr>) # cs
      else c # update_condition now new cs)"

definition FindStatusCondition :: "Condition list \<Rightarrow> string \<Rightarrow> Condition option" where
  "FindStatusCondition conds t = find (\<lambda>c. Type c = t) conds"

definition SetStatusCondition :: "nat \<Rightarrow> Condition list \<Rightarrow> Condition \<Rightarrow> Condition list" where
  "SetStatusCondition now conds new =
     (case FindStatusCondition conds (Type new) of
        None \<Rightarrow>
          conds @ [if LastTransitionTime new = None
                   then new\<lparr>LastTransitionTime := Some now\<rparr> else new]
      | Some existing \<Rightarrow> update_condition now new conds)"

section \<open>The VirtualMachine reconciler\<close>

record Result =
  Requeue :: bool
  RequeueAfter :: nat

definition no_requeue :: Result where
  "no_requeue = \<lparr>Requeue = False, RequeueAfter = 0\<rparr>"

definition vmFinalizer :: string where
  "vmFinalizer = ''llmcloud.llmcloud.io/vm-finalizer''"

definition rebootAnnotation :: string where
  "rebootAnnotation = ''llmcloud.io/reboot''"

definition reconcileKubeVirtVM ::
  "apply_fn \<Rightarrow> VirtualMachine \<Rightarrow> world \<Rightarrow> error option \<times> world" where
  "reconcileKubeVirtVM ssa vm w =
     (let kvVM = buildKubeVirtVM vm
      in case Patch_kubevirt_vm ssa (vm_key vm) kvVM w of (r, w1) \<Rightarrow> (err_of r, w1))"

text \<open>
  The fields \<open>updateVMStatusFromVMI\<close> copies out of an observed instance, one step per
  \<open>if\<close> of the source: each copies its field when the instance reports it with the
  expected type and leaves the status alone otherwise.
\<close>

definition copyPhase :: "unstructured \<Rightarrow> VirtualMachine \<Rightarrow> VirtualMachine" where
  "copyPhase status vm =
     (case map_of status ''phase'' of
        Some (JString phase) \<Rightarrow>
          vm\<lparr>Status := (Status vm)\<lparr>Phase := phase, Ready := (phase = ''Running'')\<rparr>\<rparr>
      | _ \<Rightarrow> vm)"

definition copyNode :: "unstructured \<Rightarrow> VirtualMachine \<Rightarrow> VirtualMachine" where
  "copyNode status vm =
     (case map_of status ''nodeName'' of
        Some (JString node) \<Rightarrow> vm\<lparr>Status := (Status vm)\<lparr>Node := node\<rparr>\<rparr>
      | _ \<Rightarrow> vm)"

definition copyIPAddress :: "unstructured \<Rightarrow> VirtualMachine \<Rightarrow> VirtualMachine" where
  "copyIPAddress status vm =
     (case map_of status ''interfaces'' of
        Some (JList (JObject iface # rest)) \<Rightarrow>
          (case map_of iface ''ipAddress'' of
             Some (JString ip) \<Rightarrow> vm\<lparr>Status := (Status vm)\<lparr>IPAddress := ip\<rparr>\<rparr>
           | _ \<Rightarrow> vm)
      | _ \<Rightarrow> vm)"

definition readyCondition :: "VirtualMachine \<Rightarrow> Condition" where
  "readyCondition vm =
     \<lparr>Type = ''Ready'', CStatus = ConditionTrue, Reason = ''VMRunning'',
      Message = ''Virtual machine is running'',
      ObservedGeneration = Generation (Meta vm), LastTransitionTime = None\<rparr>"

definition setReadyCondition :: "nat \<Rightarrow> VirtualMachine \<Rightarrow> VirtualMachine" where
  "setReadyCondition now vm =
     vm\<lparr>Status := (Status vm)
          \<lparr>Conditions := SetStatusCondition now (Conditions (Status vm))
                            (readyCondition vm)\<rparr>\<rparr>"

definition statusFromVMI :: "nat \<Rightarrow> VirtualMachine \<Rightarrow> unstructured \<Rightarrow> VirtualMachine" where
  "statusFromVMI now vm vmi =
     (let status = NestedMap vmi ''status''
      in setReadyCondition now (copyIPAddress status (copyNode status (copyPhase status vm))))"

definition updateVMStatusFromVMI ::
  "nat \<Rightarrow> VirtualMachine \<Rightarrow> world \<Rightarrow> error option \<times> VirtualMachine \<times> world" where
  "updateVMStatusFromVMI now vm w =
     (case Get_vmi (vm_key vm) w of
        (Inl err, w1) \<Rightarrow>
          if IsNotFound err then
            (let vm1 = vm\<lparr>Status := (Status vm)\<lparr>Phase := PhasePending, Ready := False\<rparr>\<rparr>
             in case Status_Update_vm vm1 w1 of
                  (Inl e, w2) \<Rightarrow> (Some e, vm1, w2)
                | (Inr vm2, w2) \<Rightarrow> (None, vm2, w2))
          else (Some err, vm, w1)
      | (Inr vmi, w1) \<Rightarrow>
          (let vm1 = statusFromVMI now vm vmi
           in case Status_Update_vm vm1 w1 of
                (Inl e, w2) \<Rightarrow> (Some e, vm1, w2)
              | (Inr vm2, w2) \<Rightarrow> (None, vm2, w2)))"

definition finalizeVM :: "VirtualMachine \<Rightarrow> world \<Rightarrow> error option \<times> world" where
  "finalizeVM vm w =
     (case Delete_kubevirt_vm (vm_key vm) w of (r, w1) \<Rightarrow> (IgnoreNotFound (err_of r), w1))"

text \<open>\<open>updateVMStatus\<close> drops the outcome of its status write.\<close>

definition updateVMStatus ::
  "nat \<Rightarrow> VirtualMachine \<Rightarrow> string \<Rightarrow> string \<Rightarrow> world \<Rightarrow> VirtualMachine \<times> world" where
  "updateVMStatus now vm phase message w =
     (let vm1 = vm\<lparr>Status := (Status vm)
                 \<lparr>Phase := phase, Ready := False,
                  Conditions := SetStatusCondition now (Conditions (Status vm))
                    \<lparr>Type = ''Ready'', CStatus = ConditionFalse,
                     Reason = ''ReconciliationError'', Message = message,
                     ObservedGeneration = Generation (Meta vm),
                     LastTransitionTime = None\<rparr>\<rparr>\<rparr>
      in case Status_Update_vm vm1 w of
           (Inl e, w1) \<Rightarrow> (vm1, w1)
         | (Inr vm2, w1) \<Rightarrow> (vm2, w1))"

definition rebootVM :: "VirtualMachine \<Rightarrow> world \<Rightarrow> error option \<times> world" where
  "rebootVM vm w =
     (case Get_kubevirt_vm (vm_key vm) w of
        (Inl err, w1) \<Rightarrow> (Some (Wrapped ''failed to get KubeVirt VM'' err), w1)
      | (Inr kvVM, w1) \<Rightarrow>
          (case SetNestedField kvVM (JString ''Halted'') [''spec'', ''runStrategy''] of
             Inl err \<Rightarrow> (Some (Wrapped ''failed to set runStrategy to Halted'' err), w1)
           | Inr halted \<Rightarrow>
               (case Update_kubevirt_vm (vm_key vm) halted w1 of
                  (Inl err, w2) \<Rightarrow> (Some (Wrapped ''failed to stop VM'' err), w2)
                | (Inr kvVM2, w2) \<Rightarrow>
                    (case SetNestedField kvVM2 (JString ''Always'')
                            [''spec'', ''runStrategy''] of
                       Inl err \<Rightarrow>
                         (Some (Wrapped ''failed to set runStrategy to Always'' err), w2)
                     | Inr started \<Rightarrow>
                         (case Update_kubevirt_vm (vm_key vm) started w2 of
                            (Inl err, w3) \<Rightarrow> (Some (Wrapped ''failed to start VM'' err), w3)
                          | (Inr kvVM3, w3) \<Rightarrow> (None, w3))))))"

text \<open>The test of \<open>Reconcile\<close> for a pending reboot request.\<close>

definition rebootRequested :: "VirtualMachine \<Rightarrow> bool" where
  "rebootRequested vm =
     (case Annotations (Meta vm) of
        None \<Rightarrow> False
      | Some a \<Rightarrow> index_map a rebootAnnotation = ''true'')"

text \<open>Go's \<open>delete(m, k)\<close> on a non-nil map.\<close>

definition deleteAnnotation :: "VirtualMachine \<Rightarrow> string \<Rightarrow> VirtualMachine" where
  "deleteAnnotation vm k =
     vm\<lparr>Meta := (Meta vm)
          \<lparr>Annotations := map_option (filter (\<lambda>kv. fst kv \<noteq> k)) (Annotations (Meta vm))\<rparr>\<rparr>"

text \<open>
  The tail of \<open>Reconcile\<close>, after the reboot block: the synchronisation of the external
  object and the status projection.
\<close>

definition syncAndProject ::
  "apply_fn \<Rightarrow> nat \<Rightarrow> VirtualMachine \<Rightarrow> world \<Rightarrow> (Result \<times> error option) \<times> world" where
  "syncAndProject ssa now vm w =
     (case reconcileKubeVirtVM ssa vm w of
        (Some err, w1) \<Rightarrow>
          (case updateVMStatus now vm ''Error'' (Error_text err) w1 of
             (vm1, w2) \<Rightarrow> ((no_requeue, Some err), w2))
      | (None, w1) \<Rightarrow>
          (case updateVMStatusFromVMI now vm w1 of
             (Some err, vm1, w2) \<Rightarrow> ((no_requeue\<lparr>RequeueAfter := 10\<rparr>, None), w2)
           | (None, vm1, w2) \<Rightarrow> ((no_requeue, None), w2)))"

definition VM_Reconcile ::
  "apply_fn \<Rightarrow> nat \<Rightarrow> key \<Rightarrow> world \<Rightarrow> (Result \<times> error option) \<times> world" where
  "VM_Reconcile ssa now req w =
     (case Get_vm req w of
        (Inl err, w1) \<Rightarrow> ((no_requeue, IgnoreNotFound (Some err)), w1)
      | (Inr vm, w1) \<Rightarrow>
          if DeletionTimestamp (Meta vm) \<noteq> None then
            (if ContainsFinalizer (Meta vm) vmFinalizer then
               (case finalizeVM vm w1 of
                  (Some err, w2) \<Rightarrow> ((no_requeue, Some err), w2)
                | (None, w2) \<Rightarrow>
                    (case Update_vm (vm\<lparr>Meta := RemoveFinalizer (Meta vm) vmFinalizer\<rparr>) w2 of
                       (r, w3) \<Rightarrow> ((no_requeue, err_of r), w3)))
             else ((no_requeue, None), w1))
          else if \<not> ContainsFinalizer (Meta vm) vmFinalizer then
            (case Update_vm (vm\<lparr>Meta := AddFinalizer (Meta vm) vmFinalizer\<rparr>) w1 of
               (r, w2) \<Rightarrow> ((no_requeue\<lparr>Requeue := True\<rparr>, err_of r), w2))
          else if rebootRequested vm then
            (case rebootVM vm w1 of
               (Some err, w2) \<Rightarrow> ((no_requeue, Some err), w2)
             | (None, w2) \<Rightarrow>
                 (case Update_vm (deleteAnnotation vm rebootAnnotation) w2 of
                    (Inl err, w3) \<Rightarrow> ((no_requeue, Some err), w3)
                  | (Inr vm1, w3) \<Rightarrow> syncAndProject ssa now vm1 w3))
          else syncAndProject ssa now vm w1)"

section \<open>The Project (Workspace) reconciler\<close>

definition projectFinalizer :: string where
  "projectFinalizer = ''llmcloud.llmcloud.io/finalizer''"

definition managedLabels :: "string \<Rightarrow> (string \<times> string) list" where
  "managedLabels projectName =
     [(''llmcloud.io/project'', projectName), (''llmcloud.io/managed'', ''true'')]"

definition emptyMeta :: ObjectMeta where
  "emptyMeta = \<lparr>Name = '''', Namespace = '''', Generation = 0, DeletionTimestamp = None,
                 Finalizers = [], Annotations = None, Labels = [], OwnerReferences = []\<rparr>"

text \<open>
  \<open>controllerutil.SetControllerReference\<close> on a freshly built object: the project
  becomes its controlling owner. (It fails only for an owner type the scheme does not know
  or an object that already has another controller; neither can happen to the object
  \<open>reconcileNamespace\<close> has just built.)
\<close>

definition SetControllerReference :: "Project \<Rightarrow> NamespaceObj \<Rightarrow> error + NamespaceObj" where
  "SetControllerReference owner ns =
     Inr (ns\<lparr>NsMeta := (NsMeta ns)
              \<lparr>OwnerReferences :=
                 [\<lparr>OwnerKind = ''Project'', OwnerName = Name (PMeta owner),
                   Controller = True\<rparr>]\<rparr>\<rparr>)"

definition reconcileNamespace :: "Project \<Rightarrow> string \<Rightarrow> world \<Rightarrow> error option \<times> world" where
  "reconcileNamespace project namespace w =
     (let ns = \<lparr>NsMeta = emptyMeta\<lparr>Name := namespace,
                                     Labels := managedLabels (Name (PMeta project))\<rparr>\<rparr>
      in case SetControllerReference project ns of
           Inl err \<Rightarrow> (Some err, w)
         | Inr ns1 \<Rightarrow>
             (case Get_namespace namespace w of
                (Inl err, w1) \<Rightarrow>
                  if IsNotFound err
                  then (case Create_namespace ns1 w1 of (r, w2) \<Rightarrow> (err_of r, w2))
                  else (Some err, w1)
              | (Inr existingNS, w1) \<Rightarrow>
                  (case Update_namespace
                          (existingNS\<lparr>NsMeta := (NsMeta existingNS)
                                        \<lparr>Labels := Labels (NsMeta ns1)\<rparr>\<rparr>) w1 of
                     (r, w2) \<Rightarrow> (err_of r, w2))))"

definition getRoleForMember :: "string \<Rightarrow> string" where
  "getRoleForMember role =
     (let roleMap = [(''owner'', ''admin''), (''admin'', ''admin''), (''developer'', ''edit'')]
      in case map_of roleMap role of Some r \<Rightarrow> r | None \<Rightarrow> ''view'')"

text \<open>The binding \<open>reconcileRBAC\<close> builds for one member.\<close>

definition memberBinding :: "Project \<Rightarrow> string \<Rightarrow> ProjectMember \<Rightarrow> RoleBinding" where
  "memberBinding project namespace member =
     \<lparr>RbMeta = emptyMeta\<lparr>Name := Name (PMeta project) @ ''-'' @ Username member,
                          Namespace := namespace,
                          Labels := managedLabels (Name (PMeta project))\<rparr>,
      Subjects = [\<lparr>SubjectKind = ''User'', SubjectName = Username member\<rparr>],
      RoleRefOf = \<lparr>APIGroup = ''rbac.authorization.k8s.io'', RoleKind = ''ClusterRole'',
                   RoleName = getRoleForMember (Role member)\<rparr>\<rparr>"

text \<open>The body of the loop of \<open>reconcileRBAC\<close>: create or update one member's binding.\<close>

definition reconcileMember ::
  "Project \<Rightarrow> string \<Rightarrow> ProjectMember \<Rightarrow> world \<Rightarrow> error option \<times> world" where
  "reconcileMember project namespace member w =
     (let rb = memberBinding project namespace member
      in case Get_rolebinding (namespace, Name (RbMeta rb)) w of
           (Inl err, w1) \<Rightarrow>
             if IsNotFound err
             then (case Create_rolebinding rb w1 of (r, w2) \<Rightarrow> (err_of r, w2))
             else (Some err, w1)
         | (Inr existingRB, w1) \<Rightarrow>
             (case Update_rolebinding
                     (existingRB\<lparr>Subjects := Subjects rb, RoleRefOf := RoleRefOf rb\<rparr>) w1 of
                (r, w2) \<Rightarrow> (err_of r, w2)))"

text \<open>The loop over the declared members, in order; the first error ends it.\<close>

fun reconcileMembers ::
  "Project \<Rightarrow> string \<Rightarrow> ProjectMember list \<Rightarrow> world \<Rightarrow> error option \<times> world" where
  "reconcileMembers project namespace [] w = (None, w)"
| "reconcileMembers project namespace (member # rest) w =
     (case reconcileMember project namespace member w of
        (Some err, w1) \<Rightarrow> (Some err, w1)
      | (None, w1) \<Rightarrow> reconcileMembers project namespace rest w1)"

definition reconcileRBAC :: "Project \<Rightarrow> string \<Rightarrow> world \<Rightarrow> error option \<times> world" where
  "reconcileRBAC project namespace w =
     reconcileMembers project namespace (Members (PSpec project)) w"

definition finalizeProject :: "Project \<Rightarrow> world \<Rightarrow> error option \<times> world" where
  "finalizeProject project w = (None, w)"

definition updateStatus ::
  "nat \<Rightarrow> Project \<Rightarrow> string \<Rightarrow> string \<Rightarrow> world \<Rightarrow> Project \<times> world" where
  "updateStatus now project phase message w =
     (let p1 = project\<lparr>PStatus := (PStatus project)
                 \<lparr>StatusPhase := phase,
                  StatusConditions :=
                    SetStatusCondition now (StatusConditions (PStatus project))
                      \<lparr>Type = ''Ready'', CStatus = ConditionFalse,
                       Reason = ''ReconciliationError'', Message = message,
                       ObservedGeneration = Generation (PMeta project),
                       LastTransitionTime = None\<rparr>\<rparr>\<rparr>
      in case Status_Update_project p1 w of
           (Inl e, w1) \<Rightarrow> (p1, w1)
         | (Inr p2, w1) \<Rightarrow> (p2, w1))"

definition Project_Reconcile ::
  "nat \<Rightarrow> key \<Rightarrow> world \<Rightarrow> (Result \<times> error option) \<times> world" where
  "Project_Reconcile now req w =
     (case Get_project req w of
        (Inl err, w1) \<Rightarrow> ((no_requeue, IgnoreNotFound (Some err)), w1)
      | (Inr project, w1) \<Rightarrow>
          if DeletionTimestamp (PMeta project) \<noteq> None then
            (if ContainsFinalizer (PMeta project) projectFinalizer then
               (case finalizeProject project w1 of
                  (Some err, w2) \<Rightarrow> ((no_requeue, Some err), w2)
                | (None, w2) \<Rightarrow>
                    (case Update_project
                            (project\<lparr>PMeta := RemoveFinalizer (PMeta project)
                                                 projectFinalizer\<rparr>) w2 of
                       (r, w3) \<Rightarrow> ((no_requeue, err_of r), w3)))
             else ((no_requeue, None), w1))
          else if \<not> ContainsFinalizer (PMeta project) projectFinalizer then
            (case Update_project
                    (project\<lparr>PMeta := AddFinalizer (PMeta project) projectFinalizer\<rparr>) w1 of
               (r, w2) \<Rightarrow> ((no_requeue\<lparr>Requeue := True\<rparr>, err_of r), w2))
          else
            (let namespace = ''project-'' @ Name (PMeta project)
             in case reconcileNamespace project namespace w1 of
                  (Some err, w2) \<Rightarrow>
                    (case updateStatus now project ''Error'' (Error_text err) w2 of
                       (p1, w3) \<Rightarrow> ((no_requeue, Some err), w3))
                | (None, w2) \<Rightarrow>
                    (case reconcileRBAC project namespace w2 of
                       (Some err, w3) \<Rightarrow>
                         (case updateStatus now project ''Error'' (Error_text err) w3 of
                            (p1, w4) \<Rightarrow> ((no_requeue, Some err), w4))
                     | (None, w3) \<Rightarrow>
                         (let p1 = project\<lparr>PStatus := (PStatus project)
                                     \<lparr>StatusNamespace := namespace,
                                      StatusPhase := ''Active'',
                                      StatusConditions :=
                                        SetStatusCondition now
                                          (StatusConditions (PStatus project))
                                          \<lparr>Type = ''Ready'', CStatus = ConditionTrue,
                                           Reason = ''ProjectReady'',
                                           Message = ''Project is ready'',
                                           ObservedGeneration = Generation (PMeta project),
                                           LastTransitionTime = None\<rparr>\<rparr>\<rparr>
                          in case Status_Update_project p1 w3 of
                               (r, w4) \<Rightarrow> ((no_requeue, err_of r), w4)))))"

section \<open>Concrete stores and resources for the examples\<close>

definition member_key :: "Project \<Rightarrow> string \<Rightarrow> ProjectMember \<Rightarrow> key" where
  "member_key p ns m = (ns, Name (PMeta p) @ ''-'' @ Username m)"

definition world0 :: world where
  "world0 = \<lparr>vms = [], kvvms = Map.empty, vmis = Map.empty, projects = [], namespaces = [],
             rolebindings = [], faults = [], calls = []\<rparr>"

definition team_project :: Project where
  "team_project =
     \<lparr>PMeta = emptyMeta\<lparr>Name := ''team'', Finalizers := [projectFinalizer]\<rparr>,
      PSpec = \<lparr>Description = ''a team'',
               Members = [\<lparr>Username = ''alice'', Role = ''owner''\<rparr>,
                          \<lparr>Username = ''bob'', Role = ''developer''\<rparr>,
                          \<lparr>Username = ''carol'', Role = ''viewer''\<rparr>,
                          \<lparr>Username = ''dave'', Role = ''guest''\<rparr>]\<rparr>,
      PStatus = \<lparr>StatusNamespace = '''', StatusPhase = '''', VMCount = 0,
                 LLMModelCount = 0, ServiceCount = 0, StatusConditions = []\<rparr>\<rparr>"

definition bob :: ProjectMember where
  "bob = \<lparr>Username = ''bob'', Role = ''developer''\<rparr>"

definition OSImageRepo :: "(string \<times> string) list" where
  "OSImageRepo =
    [(''ubuntu'', ''quay.io/containerdisks/ubuntu''),
     (''fedora'', ''quay.io/containerdisks/fedora''),
     (''debian'', ''quay.io/containerdisks/debian''),
     (''centos'', ''quay.io/containerdisks/centos-stream''),
     (''alpine'', ''quay.io/containerdisks/alpine''),
     (''cirros'', ''quay.io/kubevirt/cirros-container-disk-demo''),
     (''freebsd'', ''quay.io/containerdisks/freebsd'')]"

definition fallbackImage :: string where
  "fallbackImage = ''quay.io/kubevirt/cirros-container-disk-demo:latest''"

definition scenarioB_vm :: VirtualMachine where
  "scenarioB_vm =
     \<lparr>Meta = emptyMeta\<lparr>Name := ''vm1'', Namespace := ''project-demo'',
                         Finalizers := [vmFinalizer]\<rparr>,
      Spec = \<lparr>CPUs = 2, Memory = ''4Gi'', DiskSize = '''', OS = ''ubuntu'',
              OSVersion = ''22.04'', CloudInit = '''', SSHKeys = [''ssh-ed25519 AAAA''],
              RunStrategy = '''', StorageClass = ''''\<rparr>,
      Status = \<lparr>Phase = '''', Node = '''', IPAddress = '''', Ready = False,
                Conditions = []\<rparr>\<rparr>"

definition vm1_key :: key where
  "vm1_key = (''project-demo'', ''vm1'')"

text \<open>A store in which \<open>vm1\<close> has been synchronised and no instance exists yet.\<close>

definition world_vm :: world where
  "world_vm = world0\<lparr>vms := [scenarioB_vm],
                       kvvms := [vm1_key \<mapsto> buildKubeVirtVM scenarioB_vm]\<rparr>"

definition running_vmi :: unstructured where
  "running_vmi =
     [(''status'', JObject
        [(''phase'', JString ''Running''),
         (''nodeName'', JString ''node-1''),
         (''interfaces'', JList [JObject [(''ipAddress'', JString ''10.0.0.5'')]])])]"

definition scheduling_vmi :: unstructured where
  "scheduling_vmi = [(''status'', JObject [(''phase'', JString ''Scheduling'')])]"

definition world_running :: world where
  "world_running = world_vm\<lparr>vmis := [vm1_key \<mapsto> running_vmi]\<rparr>"

definition world_scheduling :: world where
  "world_scheduling = world_vm\<lparr>vmis := [vm1_key \<mapsto> scheduling_vmi]\<rparr>"


definition merge_apply :: apply_fn where
  "merge_apply desired existing =
     (case existing of
        None \<Rightarrow> desired
      | Some old \<Rightarrow> desired @ filter (\<lambda>kv. fst kv \<notin> fst ` set desired) old)"

definition deleting_vm :: VirtualMachine where
  "deleting_vm = scenarioB_vm\<lparr>Meta := (Meta scenarioB_vm)
                   \<lparr>DeletionTimestamp := Some 5,
                    Finalizers := [vmFinalizer, ''example.com/protect'']\<rparr>\<rparr>"

definition world_deleting :: world where
  "world_deleting = world_vm\<lparr>vms := [deleting_vm]\<rparr>"

text \<open>The engine's retries: one invocation per clock reading, each on the store the
  previous one left.\<close>

fun VM_Reconcile_retries ::
  "apply_fn \<Rightarrow> nat list \<Rightarrow> key \<Rightarrow> world \<Rightarrow> (Result \<times> error option) list \<times> world" where
  "VM_Reconcile_retries ssa [] req w = ([], w)"
| "VM_Reconcile_retries ssa (now # ts) req w =
     (case VM_Reconcile ssa now req w of
        (r, w1) \<Rightarrow>
          (case VM_Reconcile_retries ssa ts req w1 of (rs, w2) \<Rightarrow> (r # rs, w2)))"

definition reboot_vm :: VirtualMachine where
  "reboot_vm = scenarioB_vm\<lparr>Meta := (Meta scenarioB_vm)
                 \<lparr>Annotations := Some [(''llmcloud.io/reboot'', ''true'')]\<rparr>\<rparr>"

text \<open>A reboot was requested for a VM whose external object does not exist.\<close>

definition world_reboot_orphan :: world where
  "world_reboot_orphan = world0\<lparr>vms := [reboot_vm]\<rparr>"







text \<open>An external VM that carries a finalizer of its own, as KubeVirt's controller
  puts on the objects it manages; a resource being deleted whose only finalizer is the
  reconciler's marker.\<close>

definition guarded_kubevirt_vm :: unstructured where
  "guarded_kubevirt_vm =
     (case SetNestedField (buildKubeVirtVM scenarioB_vm)
             (JList [JString ''kubevirt.io/virtualMachineControllerFinalize''])
             [''metadata'', ''finalizers''] of
        Inr obj \<Rightarrow> obj | Inl e \<Rightarrow> [])"

definition departing_vm :: VirtualMachine where
  "departing_vm = scenarioB_vm\<lparr>Meta := (Meta scenarioB_vm)\<lparr>DeletionTimestamp := Some 5\<rparr>\<rparr>"

definition world_departing :: world where
  "world_departing = world0\<lparr>vms := [departing_vm],
                             kvvms := [vm1_key \<mapsto> guarded_kubevirt_vm]\<rparr>"







text \<open>The Workspace \<open>demo\<close>, freshly created, without members.\<close>

definition demo_project :: Project where
  "demo_project =
     \<lparr>PMeta = emptyMeta\<lparr>Name := ''demo''\<rparr>,
      PSpec = \<lparr>Description = ''demo workspace'', Members = []\<rparr>,
      PStatus = \<lparr>StatusNamespace = '''', StatusPhase = '''', VMCount = 0,
                 LLMModelCount = 0, ServiceCount = 0, StatusConditions = []\<rparr>\<rparr>"

definition demo_key :: key where
  "demo_key = ('''', ''demo'')"

text \<open>A store that holds the freshly created Workspace \<open>demo\<close> and nothing else.\<close>

definition world_demo :: world where
  "world_demo = world0\<lparr>projects := [demo_project]\<rparr>"

definition world_demo_1 :: world where
  "world_demo_1 = snd (Project_Reconcile 1 demo_key world_demo)"

definition world_demo_2 :: world where
  "world_demo_2 = snd (Project_Reconcile 2 demo_key world_demo_1)"

definition requeue_now :: Result where
  "requeue_now = \<lparr>Requeue = True, RequeueAfter = 0\<rparr>"

definition claimed_demo_project :: Project where
  "claimed_demo_project = demo_project\<lparr>PMeta := (PMeta demo_project)\<lparr>Finalizers := [projectFinalizer]\<rparr>\<rparr>"
section \<open>Facts about the store\<close>

lemma stored_key: "stored kf k xs = Some x \<Longrightarrow> kf x = k"
  by (auto simp: stored_def dest: find_Some_iff[THEN iffD1])

lemma stored_overwrite:
  "stored kf k (overwrite kf new xs) =
     (if k = kf new then (case stored kf k xs of None \<Rightarrow> None | Some old \<Rightarrow> Some new)
      else stored kf k xs)"
  by (induction xs) (auto simp: stored_def overwrite_def)

lemma stored_discard:
  "stored kf k (discard kf k' xs) = (if k = k' then None else stored kf k xs)"
  by (induction xs) (auto simp: stored_def discard_def)

lemma stored_append:
  "stored kf k (xs @ [x]) =
     (case stored kf k xs of Some y \<Rightarrow> Some y
      | None \<Rightarrow> if kf x = k then Some x else None)"
  by (induction xs) (auto simp: stored_def)

lemma overwrite_twice: "overwrite kf new (overwrite kf new xs) = overwrite kf new xs"
  by (induction xs) (auto simp: overwrite_def)

lemma answered_simps [simp]:
  "vms (answered c r w) = vms w"
  "kvvms (answered c r w) = kvvms w"
  "vmis (answered c r w) = vmis w"
  "projects (answered c r w) = projects w"
  "namespaces (answered c r w) = namespaces w"
  "rolebindings (answered c r w) = rolebindings w"
  "faults (answered c r w) = tl (faults w)"
  "calls (answered c r w) = calls w @ [(c, r)]"
  by (simp_all add: answered_def)

lemma fault_error_not_found: "\<not> IsNotFound (fault_error f)"
  by (cases f) simp_all

lemma pending_not_IsNotFound: "pending w = Some e \<Longrightarrow> \<not> IsNotFound e"
  by (cases "faults w") (auto simp: pending_def fault_error_not_found)

lemma pending_world0 [simp]: "pending world0 = None"
  by (simp add: pending_def world0_def)

lemma storedMeta_simps [simp]:
  "Name (storedMeta m) = Name m" "Namespace (storedMeta m) = Namespace m"
  "Generation (storedMeta m) = Generation m"
  "DeletionTimestamp (storedMeta m) = DeletionTimestamp m"
  "Finalizers (storedMeta m) = Finalizers m"
  "Labels (storedMeta m) = Labels m" "OwnerReferences (storedMeta m) = OwnerReferences m"
  by (simp_all add: storedMeta_def split: option.splits list.splits)

lemma storedMeta_no_annotations [simp]:
  "Annotations m = None \<Longrightarrow> storedMeta m = m"
  by (simp add: storedMeta_def)

section \<open>Facts about the image lookup\<close>

lemma keys_no_colon: "\<forall>k \<in> fst ` set OSImageMap. CHR '':'' \<notin> set k"
  by (simp add: OSImageMap_def)

lemma OSImageMap_no_versioned_key [simp]:
  "map_of OSImageMap (os @ CHR 0x3A # version) = None"
proof -
  have "os @ CHR 0x3A # version \<notin> fst ` set OSImageMap"
  proof
    assume "os @ CHR 0x3A # version \<in> fst ` set OSImageMap"
    with keys_no_colon have "CHR 0x3A \<notin> set (os @ CHR 0x3A # version)" by blast
    then show False by simp
  qed
  then show ?thesis by (simp add: map_of_eq_None_iff)
qed

lemma OSImageMap_entries:
  "\<forall>(os, img) \<in> set OSImageMap.
      img \<noteq> '''' \<and> map_of OSImageRepo os = Some (splitImageTag img ! 0)
      \<and> map_of OSImageMap os = Some img"
  by code_simp

lemma OSImageRepo_keys: "map fst OSImageRepo = map fst OSImageMap"
  by (simp add: OSImageRepo_def OSImageMap_def)

lemma GetImageForOS_known:
  assumes "map_of OSImageMap os = Some img"
  shows "GetImageForOS os version =
           (if version = '''' then img else the (map_of OSImageRepo os) @ '':'' @ version)"
proof -
  from assms have "(os, img) \<in> set OSImageMap" by (rule map_of_SomeD)
  with OSImageMap_entries have "img \<noteq> ''''"
    "map_of OSImageRepo os = Some (splitImageTag img ! 0)" by auto
  then show ?thesis using assms
    by (simp add: GetImageForOS_def index_map_def Let_def)
qed

lemma GetImageForOS_unknown:
  assumes "map_of OSImageMap os = None"
  shows "GetImageForOS os version = fallbackImage"
  using assms
  by (simp add: GetImageForOS_def index_map_def fallbackImage_def Let_def)
     (simp add: OSImageMap_def)

lemma GetImageForOS_eq:
  "GetImageForOS os version =
     (case map_of OSImageRepo os of
        None \<Rightarrow> fallbackImage
      | Some repo \<Rightarrow> if version = '''' then index_map OSImageMap os
                     else repo @ '':'' @ version)"
proof (cases "map_of OSImageMap os")
  case None
  then have "map_of OSImageRepo os = None"
    by (metis OSImageRepo_keys map_of_eq_None_iff set_map)
  with None show ?thesis by (simp add: GetImageForOS_unknown)
next
  case (Some img)
  then have "(os, img) \<in> set OSImageMap" by (rule map_of_SomeD)
  with OSImageMap_entries have "map_of OSImageRepo os = Some (splitImageTag img ! 0)" by auto
  with Some show ?thesis by (simp add: GetImageForOS_known index_map_def)
qed

section \<open>Facts about the role-binding loop\<close>

lemmas rb_ops = Get_rolebinding_def Create_rolebinding_def Update_rolebinding_def api_call_def

lemma rb_key_memberBinding [simp]: "rb_key (memberBinding p ns m) = member_key p ns m"
  by (simp add: rb_key_def memberBinding_def member_key_def emptyMeta_def)

lemma Name_memberBinding [simp]:
  "(ns, Name (RbMeta (memberBinding p ns m))) = member_key p ns m"
  by (simp add: memberBinding_def member_key_def emptyMeta_def)

lemma rb_key_update [simp]: "rb_key (rb\<lparr>Subjects := s, RoleRefOf := r\<rparr>) = rb_key rb"
  by (simp add: rb_key_def)

lemma reconcileMember_frame:
  "reconcileMember p ns m w = (r, w') \<Longrightarrow> k \<noteq> member_key p ns m \<Longrightarrow>
   stored rb_key k (rolebindings w') = stored rb_key k (rolebindings w)"
  by (auto simp: reconcileMember_def Let_def rb_ops stored_append stored_overwrite
      split: prod.splits sum.splits if_splits option.splits dest: stored_key)

lemma reconcileMember_binding:
  "reconcileMember p ns m w = (None, w') \<Longrightarrow>
   \<exists>rb. stored rb_key (member_key p ns m) (rolebindings w') = Some rb
      \<and> RoleRefOf rb = RoleRefOf (memberBinding p ns m)
      \<and> Subjects rb = Subjects (memberBinding p ns m)"
  by (auto simp: reconcileMember_def Let_def rb_ops stored_append stored_overwrite
      split: prod.splits sum.splits if_splits option.splits dest: stored_key)

text \<open>The loop touches the bindings of its members only.\<close>

lemma reconcileMembers_frame:
  "reconcileMembers p ns ms w = (r, w') \<Longrightarrow>
   k \<notin> member_key p ns ` set ms \<Longrightarrow>
   stored rb_key k (rolebindings w') = stored rb_key k (rolebindings w)"
proof (induction ms arbitrary: w)
  case Nil
  then show ?case by simp
next
  case (Cons m ms)
  then show ?case
    by (auto split: prod.splits option.splits dest: reconcileMember_frame)
qed

lemma member_key_eq [simp]:
  "member_key p ns m = member_key p ns m' \<longleftrightarrow> Username m = Username m'"
  by (simp add: member_key_def)

lemma reconcileMembers_bindings:
  "reconcileMembers p ns ms w = (None, w') \<Longrightarrow> m \<in> set ms \<Longrightarrow>
   \<exists>rb m'. m' \<in> set ms \<and> Username m' = Username m
      \<and> stored rb_key (member_key p ns m) (rolebindings w') = Some rb
      \<and> RoleRefOf rb = RoleRefOf (memberBinding p ns m')
      \<and> Subjects rb = Subjects (memberBinding p ns m')"
proof (induction ms arbitrary: w m)
  case Nil
  then show ?case by simp
next
  case (Cons m0 ms)
  from Cons.prems(1) obtain w2 where
    head: "reconcileMember p ns m0 w = (None, w2)"
    and rest: "reconcileMembers p ns ms w2 = (None, w')"
    by (auto split: prod.splits option.splits)
  from reconcileMember_binding[OF head] obtain rb0 where
    rb0: "stored rb_key (member_key p ns m0) (rolebindings w2) = Some rb0"
      "RoleRefOf rb0 = RoleRefOf (memberBinding p ns m0)"
      "Subjects rb0 = Subjects (memberBinding p ns m0)"
    by blast
  show ?case
  proof (cases "\<exists>m''\<in>set ms. Username m'' = Username m")
    case True
    then obtain m'' where m'': "m'' \<in> set ms" "Username m'' = Username m" by blast
    from Cons.IH[OF rest m''(1)] obtain rb m' where
      "m' \<in> set ms" "Username m' = Username m''"
      "stored rb_key (member_key p ns m'') (rolebindings w') = Some rb"
      "RoleRefOf rb = RoleRefOf (memberBinding p ns m')"
      "Subjects rb = Subjects (memberBinding p ns m')"
      by blast
    moreover have "member_key p ns m'' = member_key p ns m" using m''(2) by simp
    ultimately show ?thesis using m''(2) by auto
  next
    case False
    with Cons.prems(2) have eq: "Username m0 = Username m" by auto
    from False have "member_key p ns m \<notin> member_key p ns ` set ms" by auto
    from reconcileMembers_frame[OF rest this]
    have "stored rb_key (member_key p ns m) (rolebindings w') =
          stored rb_key (member_key p ns m) (rolebindings w2)" .
    then have "stored rb_key (member_key p ns m) (rolebindings w') = Some rb0"
      using rb0(1) eq by (simp add: member_key_def)
    then show ?thesis
      using rb0(2,3) eq by (intro exI[of _ rb0] exI[of _ m0]) simp
  qed
qed

lemma team_run:
  "fst (reconcileRBAC team_project ''project-team'' world0) = None"
  by code_simp

section \<open>Facts about conditions and the status projection\<close>

lemma find_append_new: "find P xs = None \<Longrightarrow> P x \<Longrightarrow> find P (xs @ [x]) = Some x"
  by (induction xs) (auto split: if_splits)

lemma find_update_condition:
  "find (\<lambda>c. Type c = Type new) conds = Some ex \<Longrightarrow>
   \<exists>c. find (\<lambda>c. Type c = Type new) (update_condition now new conds) = Some c
      \<and> CStatus c = CStatus new \<and> Reason c = Reason new \<and> Message c = Message new
      \<and> ObservedGeneration c = ObservedGeneration new"
  by (induction conds) (auto simp: Let_def split: if_splits)

lemma SetStatusCondition_found:
  "\<exists>c. FindStatusCondition (SetStatusCondition now conds new) (Type new) = Some c
      \<and> CStatus c = CStatus new \<and> Reason c = Reason new \<and> Message c = Message new
      \<and> ObservedGeneration c = ObservedGeneration new"
proof (cases "find (\<lambda>c. Type c = Type new) conds")
  case None
  then show ?thesis
    by (simp add: SetStatusCondition_def FindStatusCondition_def find_append_new)
next
  case (Some ex)
  from find_update_condition[OF this, of now] show ?thesis
    using Some by (simp add: SetStatusCondition_def FindStatusCondition_def)
qed

lemma NestedField_status:
  "NestedField (JObject vmi) [''status'', f] = map_of (NestedMap vmi ''status'') f"
  by (auto simp: NestedMap_def split: option.splits json.splits)

lemmas vm_ops = Get_vm_def Update_vm_def Status_Update_vm_def Get_vmi_def api_call_def

lemma copy_meta [simp]:
  "Meta (copyPhase st vm) = Meta vm"
  "Meta (copyNode st vm) = Meta vm"
  "Meta (copyIPAddress st vm) = Meta vm"
  "Meta (setReadyCondition now vm) = Meta vm"
  by (simp_all add: copyPhase_def copyNode_def copyIPAddress_def setReadyCondition_def
      split: option.splits json.splits list.splits)

lemma copy_spec [simp]:
  "Spec (copyPhase st vm) = Spec vm"
  "Spec (copyNode st vm) = Spec vm"
  "Spec (copyIPAddress st vm) = Spec vm"
  "Spec (setReadyCondition now vm) = Spec vm"
  by (simp_all add: copyPhase_def copyNode_def copyIPAddress_def setReadyCondition_def
      split: option.splits json.splits list.splits)

lemma copy_conditions [simp]:
  "Conditions (Status (copyPhase st vm)) = Conditions (Status vm)"
  "Conditions (Status (copyNode st vm)) = Conditions (Status vm)"
  "Conditions (Status (copyIPAddress st vm)) = Conditions (Status vm)"
  by (simp_all add: copyPhase_def copyNode_def copyIPAddress_def
      split: option.splits json.splits list.splits)

lemma copy_phase_kept [simp]:
  "Phase (Status (copyNode st vm)) = Phase (Status vm)"
  "Phase (Status (copyIPAddress st vm)) = Phase (Status vm)"
  "Phase (Status (setReadyCondition now vm)) = Phase (Status vm)"
  "Ready (Status (copyNode st vm)) = Ready (Status vm)"
  "Ready (Status (copyIPAddress st vm)) = Ready (Status vm)"
  "Ready (Status (setReadyCondition now vm)) = Ready (Status vm)"
  by (simp_all add: copyNode_def copyIPAddress_def setReadyCondition_def
      split: option.splits json.splits list.splits)

lemma copy_node_kept [simp]:
  "Node (Status (copyIPAddress st vm)) = Node (Status vm)"
  "Node (Status (setReadyCondition now vm)) = Node (Status vm)"
  "IPAddress (Status (setReadyCondition now vm)) = IPAddress (Status vm)"
  by (simp_all add: copyIPAddress_def setReadyCondition_def
      split: option.splits json.splits list.splits)

text \<open>What the projection leaves in the status, field by field.\<close>

lemma statusFromVMI_phase:
  "map_of (NestedMap vmi ''status'') ''phase'' = Some (JString p) \<Longrightarrow>
   Phase (Status (statusFromVMI now vm vmi)) = p \<and>
   Ready (Status (statusFromVMI now vm vmi)) = (p = ''Running'')"
  by (simp add: statusFromVMI_def Let_def) (simp add: copyPhase_def)

lemma statusFromVMI_node:
  "map_of (NestedMap vmi ''status'') ''nodeName'' = Some (JString n) \<Longrightarrow>
   Node (Status (statusFromVMI now vm vmi)) = n"
  by (simp add: statusFromVMI_def Let_def) (simp add: copyNode_def)

lemma statusFromVMI_ip:
  "map_of (NestedMap vmi ''status'') ''interfaces'' = Some (JList (JObject iface # rest)) \<Longrightarrow>
   map_of iface ''ipAddress'' = Some (JString ip) \<Longrightarrow>
   IPAddress (Status (statusFromVMI now vm vmi)) = ip"
  by (simp add: statusFromVMI_def Let_def) (simp add: copyIPAddress_def)

lemma statusFromVMI_ready_condition:
  "\<exists>c. FindStatusCondition (Conditions (Status (statusFromVMI now vm vmi))) ''Ready'' = Some c
      \<and> CStatus c = ConditionTrue \<and> Reason c = ''VMRunning''
      \<and> ObservedGeneration c = Generation (Meta vm)"
proof -
  let ?vm3 = "copyIPAddress (NestedMap vmi ''status'')
                (copyNode (NestedMap vmi ''status'') (copyPhase (NestedMap vmi ''status'') vm))"
  from SetStatusCondition_found[of now "Conditions (Status ?vm3)" "readyCondition ?vm3"]
  show ?thesis
    by (auto simp: statusFromVMI_def Let_def setReadyCondition_def readyCondition_def)
qed

lemma statusFromVMI_meta [simp]: "Meta (statusFromVMI now vm vmi) = Meta vm"
  by (simp add: statusFromVMI_def Let_def)

lemma statusFromVMI_key [simp]: "vm_key (statusFromVMI now vm vmi) = vm_key vm"
  by (simp add: vm_key_def)

lemma stored_vm_key [simp]: "stored vm_key k xs = Some old \<Longrightarrow> vm_key old = k"
  by (auto simp: stored_def dest: find_Some_iff[THEN iffD1])

lemma vm_key_Status [simp]: "vm_key (vm\<lparr>Status := s\<rparr>) = vm_key vm"
  by (simp add: vm_key_def)

text \<open>The status the call leaves in the caller's object, and in the store on success.\<close>

lemma updateVMStatusFromVMI_absent:
  assumes "updateVMStatusFromVMI now vm w = (r, vm', w')" "pending w = None"
    "vmis w (vm_key vm) = None"
  shows "Status vm' = (Status vm)\<lparr>Phase := ''Pending'', Ready := False\<rparr>"
  using assms
  by (auto simp: updateVMStatusFromVMI_def vm_ops Let_def PhasePending_def
      split: option.splits sum.splits prod.splits if_splits)

lemma updateVMStatusFromVMI_present:
  assumes "updateVMStatusFromVMI now vm w = (r, vm', w')" "pending w = None"
    "vmis w (vm_key vm) = Some vmi"
  shows "Status vm' = Status (statusFromVMI now vm vmi)"
  using assms
  by (auto simp: updateVMStatusFromVMI_def vm_ops Let_def
      split: option.splits sum.splits prod.splits if_splits)

lemma updateVMStatusFromVMI_stored:
  assumes "updateVMStatusFromVMI now vm w = (None, vm', w')"
  shows "stored vm_key (vm_key vm) (vms w') = Some vm'"
  using assms
  by (auto simp: updateVMStatusFromVMI_def vm_ops Let_def stored_overwrite
      split: option.splits sum.splits prod.splits if_splits)


lemma pending_examples [simp]:
  "pending world_vm = None" "pending world_running = None" "pending world_scheduling = None"
  by (simp_all add: pending_def world_vm_def world_running_def world_scheduling_def world0_def)

lemma vm_key_scenarioB [simp]: "vm_key scenarioB_vm = vm1_key"
  by (simp add: vm_key_def scenarioB_vm_def emptyMeta_def vm1_key_def)

section \<open>Facts about the VirtualMachine reconciler\<close>

lemmas kv_ops = Get_kubevirt_vm_def Update_kubevirt_vm_def Patch_kubevirt_vm_def
  Delete_kubevirt_vm_def

lemma finalizer_meta [simp]:
  "Name (RemoveFinalizer m f) = Name m" "Namespace (RemoveFinalizer m f) = Namespace m"
  "DeletionTimestamp (RemoveFinalizer m f) = DeletionTimestamp m"
  "Annotations (RemoveFinalizer m f) = Annotations m"
  "Name (AddFinalizer m f) = Name m" "Namespace (AddFinalizer m f) = Namespace m"
  "DeletionTimestamp (AddFinalizer m f) = DeletionTimestamp m"
  "Annotations (AddFinalizer m f) = Annotations m"
  by (simp_all add: RemoveFinalizer_def AddFinalizer_def)

lemma finalizers_after [simp]:
  "f \<notin> set (Finalizers (RemoveFinalizer m f))"
  "f \<in> set (Finalizers (AddFinalizer m f))"
  by (simp_all add: RemoveFinalizer_def AddFinalizer_def)

lemma vm_key_Meta [simp]: "vm_key (vm\<lparr>Meta := m\<rparr>) = (Namespace m, Name m)"
  by (simp add: vm_key_def)

lemma vm_key_eq: "vm_key vm = k \<Longrightarrow> (Namespace (Meta vm), Name (Meta vm)) = k"
  by (simp add: vm_key_def)

lemma deleting_run:
  "map_option (\<lambda>sv. Finalizers (Meta sv))
     (stored vm_key vm1_key (vms (snd (VM_Reconcile merge_apply 9 vm1_key world_deleting))))
     = Some [''example.com/protect'']"
  "stored vm_key vm1_key (vms world_deleting) = Some deleting_vm"
  "DeletionTimestamp (Meta deleting_vm) = Some 5"
  "kvvms world_deleting vm1_key \<noteq> None"
  "kvvms world_deleting vm1_key = Some (buildKubeVirtVM scenarioB_vm)"
  "\<not> hasFinalizers (buildKubeVirtVM scenarioB_vm)"
  by code_simp+


lemma rebootVM_outcomes:
  assumes "rebootVM vm w = (r, w')" and "vm_key vm = k"
  shows "vms w' = vms w \<and> vmis w' = vmis w \<and> (faults w = [] \<longrightarrow> faults w' = []) \<and>
    ((\<exists>e. r = Some (Wrapped ''failed to get KubeVirt VM'' e)
          \<and> (pending w = Some e \<or> pending w = None \<and> e = NotFound \<and> kvvms w k = None)
          \<and> kvvms w' = kvvms w \<and> calls w' = calls w @ [(GetKubeVirtVM k, Some e)])
     \<or> (\<exists>kv e. r = Some (Wrapped ''failed to set runStrategy to Halted'' e)
          \<and> kvvms w k = Some kv \<and> kvvms w' = kvvms w
          \<and> calls w' = calls w @ [(GetKubeVirtVM k, None)])
     \<or> (\<exists>kv halted e. r = Some (Wrapped ''failed to stop VM'' e)
          \<and> kvvms w k = Some kv
          \<and> SetNestedField kv (JString ''Halted'') [''spec'', ''runStrategy''] = Inr halted
          \<and> kvvms w' = kvvms w
          \<and> calls w' = calls w @ [(GetKubeVirtVM k, None),
                                   (UpdateKubeVirtVM k halted, Some e)])
     \<or> (\<exists>kv halted e. r = Some (Wrapped ''failed to set runStrategy to Always'' e)
          \<and> kvvms w k = Some kv
          \<and> SetNestedField kv (JString ''Halted'') [''spec'', ''runStrategy''] = Inr halted
          \<and> kvvms w' = (kvvms w)(k \<mapsto> halted)
          \<and> calls w' = calls w @ [(GetKubeVirtVM k, None),
                                   (UpdateKubeVirtVM k halted, None)])
     \<or> (\<exists>kv halted started e. r = Some (Wrapped ''failed to start VM'' e)
          \<and> kvvms w k = Some kv
          \<and> SetNestedField kv (JString ''Halted'') [''spec'', ''runStrategy''] = Inr halted
          \<and> SetNestedField halted (JString ''Always'') [''spec'', ''runStrategy''] = Inr started
          \<and> kvvms w' = (kvvms w)(k \<mapsto> halted)
          \<and> calls w' = calls w @ [(GetKubeVirtVM k, None),
                                   (UpdateKubeVirtVM k halted, None),
                                   (UpdateKubeVirtVM k started, Some e)])
     \<or> (\<exists>kv halted started. r = None
          \<and> kvvms w k = Some kv
          \<and> SetNestedField kv (JString ''Halted'') [''spec'', ''runStrategy''] = Inr halted
          \<and> SetNestedField halted (JString ''Always'') [''spec'', ''runStrategy''] = Inr started
          \<and> kvvms w' = (kvvms w)(k \<mapsto> started)
          \<and> calls w' = calls w @ [(GetKubeVirtVM k, None),
                                   (UpdateKubeVirtVM k halted, None),
                                   (UpdateKubeVirtVM k started, None)]))"
proof -
  note run = assms(1)[symmetric]
  note defs = rebootVM_def kv_ops api_call_def assms(2)
  show ?thesis
  proof (cases "pending w")
    case (Some e)
    with run show ?thesis by (simp add: defs)
  next
    case p0: None
    show ?thesis
    proof (cases "kvvms w k")
      case None
      with p0 run show ?thesis by (simp add: defs)
    next
      case kv: (Some kv)
      let ?w1 = "answered (GetKubeVirtVM k) None w"
      show ?thesis
      proof (cases "SetNestedField kv (JString ''Halted'') [''spec'', ''runStrategy'']")
        case (Inl e)
        with kv p0 run show ?thesis by (simp add: defs)
      next
        case h: (Inr halted)
        show ?thesis
        proof (cases "pending ?w1")
          case (Some e)
          with h kv p0 run show ?thesis by (simp add: defs)
        next
          case p1: None
          let ?w2 = "answered (UpdateKubeVirtVM k halted) None
                       (?w1\<lparr>kvvms := (kvvms ?w1)(k \<mapsto> halted)\<rparr>)"
          show ?thesis
          proof (cases "SetNestedField halted (JString ''Always'') [''spec'', ''runStrategy'']")
            case (Inl e)
            with p1 h kv p0 run show ?thesis by (simp add: defs)
          next
            case s: (Inr started)
            show ?thesis
            proof (cases "pending ?w2")
              case (Some e)
              with s p1 h kv p0 run show ?thesis by (simp add: defs)
            next
              case p2: None
              with s p1 h kv p0 run show ?thesis by (simp add: defs)
            qed
          qed
        qed
      qed
    qed
  qed
qed


lemma pending_no_faults: "faults w = [] \<Longrightarrow> pending w = None"
  by (simp add: pending_def)

text \<open>The branches of \<open>Reconcile\<close>, by the state of the fetched resource.\<close>

lemma VM_Reconcile_fetch_fault:
  "pending w = Some e \<Longrightarrow>
   VM_Reconcile ssa now req w = ((no_requeue, Some e), answered (GetVM req) (Some e) w)"
  by (simp add: VM_Reconcile_def vm_ops IgnoreNotFound_def pending_not_IsNotFound)

lemma VM_Reconcile_reboot_branch:
  assumes "pending w = None" "stored vm_key req (vms w) = Some vm"
    "DeletionTimestamp (Meta vm) = None" "vmFinalizer \<in> set (Finalizers (Meta vm))"
    "rebootRequested vm"
  shows "VM_Reconcile ssa now req w =
     (case rebootVM vm (answered (GetVM req) None w) of
        (Some err, w2) \<Rightarrow> ((no_requeue, Some err), w2)
      | (None, w2) \<Rightarrow>
          (case Update_vm (deleteAnnotation vm rebootAnnotation) w2 of
             (Inl err, w3) \<Rightarrow> ((no_requeue, Some err), w3)
           | (Inr vm1, w3) \<Rightarrow> syncAndProject ssa now vm1 w3))"
  using assms by (simp add: VM_Reconcile_def Get_vm_def api_call_def ContainsFinalizer_def)


text \<open>A requested reboot of a VM without external object: one blocked invocation.\<close>

lemma reboot_blocked:
  assumes "stored vm_key req (vms w) = Some vm"
    and "DeletionTimestamp (Meta vm) = None"
    and "vmFinalizer \<in> set (Finalizers (Meta vm))"
    and "rebootRequested vm"
    and "kvvms w req = None"
    and "VM_Reconcile ssa now req w = ((res, err), w')"
  shows "res = no_requeue \<and> vms w' = vms w \<and> kvvms w' = kvvms w \<and> vmis w' = vmis w
     \<and> (faults w = [] \<longrightarrow> faults w' = [])
     \<and> ((\<exists>e. pending w = Some e \<and> err = Some e \<and> calls w' = calls w @ [(GetVM req, Some e)])
        \<or> (\<exists>e. pending w = None
              \<and> err = Some (Wrapped ''failed to get KubeVirt VM'' e)
              \<and> (pending (answered (GetVM req) None w) = None \<longrightarrow> e = NotFound)
              \<and> calls w' = calls w @ [(GetVM req, None), (GetKubeVirtVM req, Some e)]))"
proof (cases "pending w")
  case (Some e)
  with assms(6)[symmetric] show ?thesis by (simp add: VM_Reconcile_fetch_fault)
next
  case None
  let ?w1 = "answered (GetVM req) None w"
  have key: "vm_key vm = req" using assms(1) by simp
  obtain r w2 where rb: "rebootVM vm ?w1 = (r, w2)" by (cases "rebootVM vm ?w1")
  from rebootVM_outcomes[OF rb key] assms(5)
  obtain e where e: "r = Some (Wrapped ''failed to get KubeVirt VM'' e)"
      "pending ?w1 = Some e \<or> pending ?w1 = None \<and> e = NotFound"
      "kvvms w2 = kvvms w" "vms w2 = vms w" "vmis w2 = vmis w"
      "faults w = [] \<longrightarrow> faults w2 = []"
      "calls w2 = calls w @ [(GetVM req, None), (GetKubeVirtVM req, Some e)]"
    by auto
  from assms(6)[symmetric] VM_Reconcile_reboot_branch[OF None assms(1-4), of ssa now] rb e(1)
  have "res = no_requeue" "err = r" "w' = w2" by simp_all
  with e None show ?thesis by auto
qed


lemma orphan_facts:
  "stored vm_key vm1_key (vms world_reboot_orphan) = Some reboot_vm"
  "DeletionTimestamp (Meta reboot_vm) = None"
  "vmFinalizer \<in> set (Finalizers (Meta reboot_vm))"
  "rebootRequested reboot_vm"
  "kvvms world_reboot_orphan vm1_key = None"
  "faults world_reboot_orphan = []"
  by code_simp+

lemma map_of_set_key [simp]: "map_of (set_key k v m) k = Some v"
  by (induction m) auto



lemma NestedField_empty: "NestedField (JObject []) (c # q) = None"
  by simp






lemma deleteAnnotation_simps [simp]:
  "vm_key (deleteAnnotation vm k) = vm_key vm"
  "Status (deleteAnnotation vm k) = Status vm"
  "Spec (deleteAnnotation vm k) = Spec vm"
  "DeletionTimestamp (Meta (deleteAnnotation vm k)) = DeletionTimestamp (Meta vm)"
  "Finalizers (Meta (deleteAnnotation vm k)) = Finalizers (Meta vm)"
  "Name (Meta (deleteAnnotation vm k)) = Name (Meta vm)"
  "Namespace (Meta (deleteAnnotation vm k)) = Namespace (Meta vm)"
  by (simp_all add: deleteAnnotation_def vm_key_def)

lemma Status_same [simp]: "vm\<lparr>Status := Status vm\<rparr> = vm"
  by simp







lemma deleteAnnotation_Status [simp]:
  "(deleteAnnotation vm k)\<lparr>Status := Status vm\<rparr> = deleteAnnotation vm k"
  by (simp add: deleteAnnotation_def)







lemma pending_head [simp]: "faults w = f # rest \<Longrightarrow> pending w = map_option fault_error f"
  by (simp add: pending_def)

lemma faults_after_get [simp]:
  "faults w = f # rest \<Longrightarrow> faults (answered c r w) = rest"
  by simp


section \<open>The Project reconciler: namespace\<close>

lemma stored_project_key [simp]:
  "stored project_key k xs = Some old \<Longrightarrow> project_key old = k"
  by (auto simp: stored_def dest: find_Some_iff[THEN iffD1])

lemma stored_ns_key [simp]: "stored ns_key k xs = Some old \<Longrightarrow> ns_key old = k"
  by (auto simp: stored_def dest: find_Some_iff[THEN iffD1])

lemmas project_ops = Get_project_def Update_project_def Status_Update_project_def
  Get_namespace_def Create_namespace_def Update_namespace_def api_call_def

lemma project_key_simps [simp]:
  "project_key (p\<lparr>PStatus := s\<rparr>) = project_key p"
  "project_key (p\<lparr>PMeta := AddFinalizer (PMeta p) f\<rparr>) = project_key p"
  "ns_key (ns\<lparr>NsMeta := (NsMeta ns)\<lparr>Labels := l\<rparr>\<rparr>) = ns_key ns"
  by (simp_all add: project_key_def ns_key_def)

lemma reconcileNamespace_quiet:
  assumes "faults w = []" and "reconcileNamespace p n w = (r, w2)"
  shows "r = None \<and> faults w2 = [] \<and> projects w2 = projects w
       \<and> stored ns_key n (namespaces w2)
           = Some (case stored ns_key n (namespaces w) of
                     None \<Rightarrow>
                       \<lparr>NsMeta = emptyMeta
                          \<lparr>Name := n, Labels := managedLabels (Name (PMeta p)),
                           OwnerReferences :=
                             [\<lparr>OwnerKind = ''Project'', OwnerName = Name (PMeta p),
                               Controller = True\<rparr>]\<rparr>\<rparr>
                   | Some existing \<Rightarrow>
                       existing\<lparr>NsMeta := (NsMeta existing)
                                  \<lparr>Labels := managedLabels (Name (PMeta p))\<rparr>\<rparr>)"
proof (cases "stored ns_key n (namespaces w)")
  case None
  with assms(1) assms(2)[symmetric] show ?thesis
    by (simp add: reconcileNamespace_def SetControllerReference_def Get_namespace_def
        Create_namespace_def api_call_def pending_def stored_append ns_key_def emptyMeta_def)
next
  case (Some existing)
  then have "ns_key existing = n" by simp
  with Some assms(1) assms(2)[symmetric] show ?thesis
    by (simp add: reconcileNamespace_def SetControllerReference_def Get_namespace_def
        Update_namespace_def api_call_def pending_def stored_overwrite ns_key_def emptyMeta_def)
qed

lemma demo_facts:
  "stored project_key (snd demo_key) (projects world_demo_1) = Some claimed_demo_project"
  "DeletionTimestamp (PMeta claimed_demo_project) = None"
  "Members (PSpec claimed_demo_project) = []"
  "faults world_demo_1 = []"
  "projectFinalizer \<in> set (Finalizers (PMeta claimed_demo_project))"
  "Name (PMeta claimed_demo_project) = ''demo''"
  "VMCount (PStatus claimed_demo_project) = 0"
  "snd demo_key = ''demo''"
  by code_simp+

section \<open>C2: the finalizer is removed after the external object was deleted\<close>

text \<open>
  Claim C2, as stated: the marker is removed only after the external KubeVirt VM has
  been successfully deleted or confirmed absent, so that no run leaves the marker removed
  while the external object still exists. The store does not remove an object that
  carries finalizers of its own when it is deleted: it stamps the object and answers
  with success. \<open>finalizeVM\<close> neither reads the object again nor waits. For a resource
  whose only finalizer is the marker and an external VM that carries a finalizer, one
  invocation sends the delete, then the update that removes the marker, returns no error,
  the resource is gone from the store, and the external VM is still stored, stamped and
  with its run strategy unchanged.
\<close>

theorem C2_external_object_survives_counterexample:
  "stored vm_key vm1_key (vms world_departing) = Some departing_vm
   \<and> DeletionTimestamp (Meta departing_vm) = Some 5
   \<and> Finalizers (Meta departing_vm) = [vmFinalizer]
   \<and> fst (VM_Reconcile merge_apply 9 vm1_key world_departing) = (no_requeue, None)
   \<and> calls (snd (VM_Reconcile merge_apply 9 vm1_key world_departing))
       = [(GetVM vm1_key, None), (DeleteKubeVirtVM vm1_key, None),
          (UpdateVM (departing_vm\<lparr>Meta := RemoveFinalizer (Meta departing_vm) vmFinalizer\<rparr>),
           None)]
   \<and> stored vm_key vm1_key (vms (snd (VM_Reconcile merge_apply 9 vm1_key world_departing)))
       = None
   \<and> kvvms (snd (VM_Reconcile merge_apply 9 vm1_key world_departing)) vm1_key
       = Some (markDeleted 1 guarded_kubevirt_vm)
   \<and> NestedField (JObject (markDeleted 1 guarded_kubevirt_vm)) [''spec'', ''runStrategy'']
       = Some (JString ''Always'')
   \<and> NestedField (JObject (markDeleted 1 guarded_kubevirt_vm)) [''metadata'', ''deletionTimestamp'']
       = Some (JInt 1)"
  by code_simp

text \<open>
  Claim C2, amended. For a VirtualMachine that carries the marker and a deletion
  timestamp, one invocation of the reconciler ends in one of three ways: the fetch of the
  resource fails and nothing else was called; the delete of the external KubeVirt VM
  fails with an error other than not-found, that error is returned, no update was sent
  and both stores are as before; or the delete was answered with not-found (the object
  was absent) or with success, and only then the update that removes the marker was sent.
  After a successful delete the external object is absent if it carried no finalizers,
  and is still stored, stamped with a deletion timestamp, if it carried one. When the
  update succeeds the resource is stored without the marker, or is gone when the marker
  was its last finalizer; when it fails the resource is unchanged. So whenever the
  resource is afterwards stored without the marker, the external object is absent or
  has been stamped for deletion and is held by its own finalizers.
\<close>

theorem C2_finalizer_ordering:
  assumes "stored vm_key req (vms w) = Some vm"
    and "DeletionTimestamp (Meta vm) \<noteq> None"
    and "vmFinalizer \<in> set (Finalizers (Meta vm))"
    and "VM_Reconcile ssa now req w = ((res, err), w')"
  shows "((\<exists>e. err = Some e \<and> w' = answered (GetVM req) (Some e) w)
          \<or> (\<exists>e. \<not> IsNotFound e \<and> err = Some e \<and> vms w' = vms w \<and> kvvms w' = kvvms w
                \<and> calls w' = calls w @ [(GetVM req, None), (DeleteKubeVirtVM req, Some e)])
          \<or> (\<exists>d. calls w' = calls w @
                     [(GetVM req, None), (DeleteKubeVirtVM req, d),
                      (UpdateVM (vm\<lparr>Meta := RemoveFinalizer (Meta vm) vmFinalizer\<rparr>), err)]
                \<and> (case kvvms w req of
                      None \<Rightarrow> d = Some NotFound \<and> kvvms w' req = None
                    | Some obj \<Rightarrow>
                        d = None \<and>
                        kvvms w' req =
                          (if hasFinalizers obj
                           then Some (markDeleted (Suc (length (calls w))) obj)
                           else None))
                \<and> (case err of
                      Some e \<Rightarrow> vms w' = vms w
                    | None \<Rightarrow>
                        stored vm_key req (vms w') =
                          (if Finalizers (RemoveFinalizer (Meta vm) vmFinalizer) = [] then None
                           else Some (vm\<lparr>Meta := storedMeta
                                               (RemoveFinalizer (Meta vm) vmFinalizer)\<rparr>)))))
       \<and> ((\<forall>sv. stored vm_key req (vms w') = Some sv \<longrightarrow>
               vmFinalizer \<in> set (Finalizers (Meta sv)))
            \<or> kvvms w' req = None
            \<or> (\<exists>obj. kvvms w req = Some obj \<and> hasFinalizers obj
                  \<and> kvvms w' req = Some (markDeleted (Suc (length (calls w))) obj)))"
proof -
  have "vm_key vm = req" using assms(1) by simp
  then have key: "vm_key vm = req" "(Namespace (Meta vm), Name (Meta vm)) = req"
    by (simp_all add: vm_key_def)
  note run = assms(4)[symmetric]
  note pre = assms(1-3)
  note defs = VM_Reconcile_def finalizeVM_def vm_ops kv_ops ContainsFinalizer_def
    IgnoreNotFound_def stored_overwrite stored_discard Let_def
  show ?thesis
  proof (cases "pending w")
    case (Some e)
    then have "\<not> IsNotFound e" by (rule pending_not_IsNotFound)
    with Some pre run show ?thesis by (simp add: defs)
  next
    case None
    let ?w1 = "answered (GetVM req) None w"
    show ?thesis
    proof (cases "pending ?w1")
      case (Some e)
      then have "\<not> IsNotFound e" by (rule pending_not_IsNotFound)
      with Some None pre key run show ?thesis by (simp add: defs)
    next
      case p1: None
      show ?thesis
      proof (cases "kvvms w req")
        case kv: None
        let ?w2 = "answered (DeleteKubeVirtVM req) (Some NotFound) ?w1"
        show ?thesis
        proof (cases "pending ?w2")
          case (Some e)
          with kv p1 None pre key run show ?thesis by (simp add: defs)
        next
          case p2: None
          with kv p1 None pre key run show ?thesis
            by (cases "Finalizers (RemoveFinalizer (Meta vm) vmFinalizer) = []")
               (simp_all add: defs)
        qed
      next
        case kv: (Some obj)
        show ?thesis
        proof (cases "hasFinalizers obj")
          case hf: True
          let ?w2 = "answered (DeleteKubeVirtVM req) None
                       (?w1\<lparr>kvvms := (kvvms ?w1)(req \<mapsto> markDeleted (length (calls ?w1)) obj)\<rparr>)"
          show ?thesis
          proof (cases "pending ?w2")
            case (Some e)
            with hf kv p1 None pre key run show ?thesis by (simp add: defs)
          next
            case p2: None
            with hf kv p1 None pre key run show ?thesis
              by (cases "Finalizers (RemoveFinalizer (Meta vm) vmFinalizer) = []")
                 (simp_all add: defs)
          qed
        next
          case hf: False
          let ?w2 = "answered (DeleteKubeVirtVM req) None (?w1\<lparr>kvvms := (kvvms ?w1)(req := None)\<rparr>)"
          show ?thesis
          proof (cases "pending ?w2")
            case (Some e)
            with hf kv p1 None pre key run show ?thesis by (simp add: defs)
          next
            case p2: None
            with hf kv p1 None pre key run show ?thesis
              by (cases "Finalizers (RemoveFinalizer (Meta vm) vmFinalizer) = []")
                 (simp_all add: defs)
          qed
        qed
      qed
    qed
  qed
qed

theorem C2_finalizer_ordering_witness:
  "kvvms world_deleting vm1_key = Some (buildKubeVirtVM scenarioB_vm)
   \<and> \<not> hasFinalizers (buildKubeVirtVM scenarioB_vm)
   \<and> map_option (\<lambda>sv. Finalizers (Meta sv))
        (stored vm_key vm1_key (vms (snd (VM_Reconcile merge_apply 9 vm1_key world_deleting))))
       = Some [''example.com/protect'']
   \<and> kvvms (snd (VM_Reconcile merge_apply 9 vm1_key world_deleting)) vm1_key = None"
proof -
  let ?run = "VM_Reconcile merge_apply 9 vm1_key world_deleting"
  have fin: "vmFinalizer \<in> set (Finalizers (Meta deleting_vm))"
    by (simp add: deleting_vm_def)
  have run: "?run = ((fst (fst ?run), snd (fst ?run)), snd ?run)" by simp
  from deleting_run(1) obtain sv where
    sv: "stored vm_key vm1_key (vms (snd ?run)) = Some sv"
      "Finalizers (Meta sv) = [''example.com/protect'']"
    by auto
  then have "vmFinalizer \<notin> set (Finalizers (Meta sv))"
    by (simp add: vmFinalizer_def)
  with C2_finalizer_ordering[OF deleting_run(2) _ fin run] deleting_run(3,5,6) sv(1)
  have "kvvms (snd ?run) vm1_key = None" by auto
  with deleting_run(1,5,6) show ?thesis by simp
qed

section \<open>C3: the desired external object\<close>

text \<open>
  Claim C3 says that the boot image falls back to a safe image whenever the pair of OS
  and version is not recognised. The table has no versioned keys at all, and for an OS of
  the table any non-empty version is pasted onto the repository of the table's image: the
  pair \<open>ubuntu\<close>, \<open>99.99\<close> is in no table and yields an image that is none of the
  table's, the fallback included.
\<close>

theorem C3_image_counterexample:
  "map_of OSImageMap (''ubuntu'' @ '':'' @ ''99.99'') = None
   \<and> GetImageForOS ''ubuntu'' ''99.99'' = ''quay.io/containerdisks/ubuntu:99.99''
   \<and> GetImageForOS ''ubuntu'' ''99.99'' \<notin> snd ` set OSImageMap"
  by code_simp


text \<open>
  Claim C3, amended. The object built from a VirtualMachine has: the run strategy of the
  spec, \<open>Always\<close> when unset; a container-disk volume with the image of the lookup
  and the data volume, followed by a cloud-init volume exactly when cloud-init text or SSH
  keys are present, whose user data is the text, or else the keys rendered under a
  \<open>#cloud-config\<close> header; the matching disks; one data-volume template of the
  spec's size and storage class, \<open>10Gi\<close> and \<open>local-path\<close> when unset; the CPU
  count and the memory of the spec, unchanged. The image lookup yields the fallback image
  for an OS outside the table (whatever the version), the table's image for an OS of the
  table without a version, and for an OS of the table with a version the repository of its
  table image tagged with that version, recognised or not.
\<close>

theorem C3_desired_object:
  "NestedField (JObject (buildKubeVirtVM vm)) [''spec'', ''runStrategy''] =
     Some (JString (if RunStrategy (Spec vm) = '''' then ''Always''
                    else RunStrategy (Spec vm)))
   \<and> NestedField (JObject (buildKubeVirtVM vm)) [''spec'', ''template'', ''spec'', ''volumes''] =
     Some (JList
       ([JObject [(''name'', JString ''containerdisk''),
                  (''containerDisk'', JObject
                     [(''image'', JString (GetImageForOS (OS (Spec vm))
                                             (OSVersion (Spec vm))))])],
         JObject [(''name'', JString ''datadisk''),
                  (''dataVolume'', JObject
                     [(''name'', JString (Name (Meta vm) @ ''-disk''))])]]
        @ (if CloudInit (Spec vm) \<noteq> '''' \<or> SSHKeys (Spec vm) \<noteq> []
           then [JObject [(''name'', JString ''cloudinitdisk''),
                          (''cloudInitNoCloud'', JObject
                             [(''userData'', JString
                                 (if CloudInit (Spec vm) \<noteq> '''' then CloudInit (Spec vm)
                                  else ''#cloud-config'' @ [newline]
                                       @ ''ssh_authorized_keys:'' @ [newline]
                                       @ Join (SSHKeys (Spec vm)) [newline]))])]]
           else [])))
   \<and> NestedField (JObject (buildKubeVirtVM vm))
        [''spec'', ''template'', ''spec'', ''domain'', ''devices'', ''disks''] =
     Some (JList
       ([virtio_disk ''containerdisk'', virtio_disk ''datadisk'']
        @ (if CloudInit (Spec vm) \<noteq> '''' \<or> SSHKeys (Spec vm) \<noteq> []
           then [virtio_disk ''cloudinitdisk''] else [])))
   \<and> NestedField (JObject (buildKubeVirtVM vm)) [''spec'', ''dataVolumeTemplates''] =
     Some (JList
       [JObject
          [(''metadata'', JObject [(''name'', JString (Name (Meta vm) @ ''-disk''))]),
           (''spec'', JObject
              [(''source'', JObject [(''blank'', JObject [])]),
               (''storage'', JObject
                  [(''accessModes'', JList [JString ''ReadWriteOnce'']),
                   (''resources'', JObject
                      [(''requests'', JObject
                          [(''storage'', JString
                              (if DiskSize (Spec vm) = '''' then ''10Gi''
                               else DiskSize (Spec vm)))])]),
                   (''storageClassName'', JString
                      (if StorageClass (Spec vm) = '''' then ''local-path''
                       else StorageClass (Spec vm)))])])]])
   \<and> NestedField (JObject (buildKubeVirtVM vm))
        [''spec'', ''template'', ''spec'', ''domain'', ''cpu'', ''cores''] =
     Some (JInt (sint (CPUs (Spec vm))))
   \<and> NestedField (JObject (buildKubeVirtVM vm))
        [''spec'', ''template'', ''spec'', ''domain'', ''resources'', ''requests'', ''memory''] =
     Some (JString (Memory (Spec vm)))
   \<and> GetImageForOS os version =
     (case map_of OSImageRepo os of
        None \<Rightarrow> fallbackImage
      | Some repo \<Rightarrow> if version = '''' then index_map OSImageMap os
                     else repo @ '':'' @ version)"
proof (intro conjI)
  show "GetImageForOS os version =
     (case map_of OSImageRepo os of
        None \<Rightarrow> fallbackImage
      | Some repo \<Rightarrow> if version = '''' then index_map OSImageMap os
                     else repo @ '':'' @ version)"
    by (rule GetImageForOS_eq)
qed (simp_all add: buildKubeVirtVM_def Let_def cloudInitUserData_def)

theorem C3_desired_object_witness:
  "NestedField (JObject (buildKubeVirtVM scenarioB_vm)) [''spec'', ''runStrategy''] =
     Some (JString ''Always'')
   \<and> NestedField (JObject (buildKubeVirtVM scenarioB_vm))
        [''spec'', ''template'', ''spec'', ''volumes''] =
     Some (JList
       [JObject [(''name'', JString ''containerdisk''),
                 (''containerDisk'', JObject
                    [(''image'', JString ''quay.io/containerdisks/ubuntu:22.04'')])],
        JObject [(''name'', JString ''datadisk''),
                 (''dataVolume'', JObject [(''name'', JString ''vm1-disk'')])],
        JObject [(''name'', JString ''cloudinitdisk''),
                 (''cloudInitNoCloud'', JObject
                    [(''userData'', JString
                        (''#cloud-config'' @ [newline] @ ''ssh_authorized_keys:''
                         @ [newline] @ ''ssh-ed25519 AAAA''))])]])
   \<and> GetImageForOS ''ubuntu'' '''' = ''quay.io/containerdisks/ubuntu:22.04''
   \<and> GetImageForOS ''windows'' ''11'' = fallbackImage"
proof -
  have img: "GetImageForOS ''ubuntu'' ''22.04'' = ''quay.io/containerdisks/ubuntu:22.04''"
    "GetImageForOS ''ubuntu'' '''' = ''quay.io/containerdisks/ubuntu:22.04''"
    "GetImageForOS ''windows'' ''11'' = fallbackImage"
    using C3_desired_object[of scenarioB_vm "''ubuntu''" "''22.04''"]
      C3_desired_object[of scenarioB_vm "''ubuntu''" "''''"]
      C3_desired_object[of scenarioB_vm "''windows''" "''11''"]
    by (simp_all add: OSImageRepo_def OSImageMap_def index_map_def)
  show ?thesis
    using C3_desired_object[of scenarioB_vm "''ubuntu''" "''22.04''"] img
    by (simp add: scenarioB_vm_def emptyMeta_def)
qed

section \<open>C4: the namespace of a Workspace\<close>

text \<open>
  Claim C4 says that reconciling the Workspace \<open>demo\<close> yields the namespace
  \<open>workspace-demo\<close>. The reconciler computes the name as \<open>project-\<close> followed
  by the Workspace's name. Starting from a store that holds only the Workspace, the first
  invocation only adds the finalizer and asks for a requeue; the second creates the
  namespace \<open>project-demo\<close> and records that name in the status. No namespace
  \<open>workspace-demo\<close> exists afterwards.
\<close>

theorem C4_namespace_name_counterexample:
  "fst (Project_Reconcile 1 demo_key world_demo) = (requeue_now, None)
   \<and> namespaces world_demo_1 = []
   \<and> fst (Project_Reconcile 2 demo_key world_demo_1) = (no_requeue, None)
   \<and> stored ns_key ''workspace-demo'' (namespaces world_demo_2) = None
   \<and> map_option ns_key (stored ns_key ''project-demo'' (namespaces world_demo_2))
       = Some ''project-demo''
   \<and> map_option (\<lambda>p. StatusNamespace (PStatus p))
        (stored project_key ''demo'' (projects world_demo_2)) = Some ''project-demo''"
  by code_simp

text \<open>
  Claim C4, amended. Let a Workspace without members be stored and not being deleted,
  and let no call to the store fail. If the Workspace does not carry the finalizer yet,
  one invocation adds it, asks for a requeue, and creates no namespace. If it carries
  the finalizer, one invocation returns no error, and afterwards the namespace named
  \<open>project-\<close> followed by the Workspace's name is stored: created with the managed
  labels and the Workspace as its controlling owner when it was absent, otherwise the
  existing one with its labels replaced by the managed labels; the stored Workspace has
  the same metadata and spec, its status records that namespace name and the phase
  \<open>Active\<close>, and its VM count is what it was (zero for a fresh Workspace: the
  reconciler never writes it).
\<close>

theorem C4_namespace_of_workspace:
  assumes "stored project_key (snd req) (projects w) = Some p"
    and "DeletionTimestamp (PMeta p) = None"
    and "Members (PSpec p) = []"
    and "faults w = []"
    and "Project_Reconcile now req w = ((res, err), w')"
  shows "(projectFinalizer \<notin> set (Finalizers (PMeta p)) \<longrightarrow>
            res = requeue_now \<and> err = None \<and> namespaces w' = namespaces w
          \<and> stored project_key (snd req) (projects w')
              = Some (p\<lparr>PMeta := storedMeta (AddFinalizer (PMeta p) projectFinalizer)\<rparr>))
       \<and> (projectFinalizer \<in> set (Finalizers (PMeta p)) \<longrightarrow>
            res = no_requeue \<and> err = None
          \<and> stored ns_key (''project-'' @ Name (PMeta p)) (namespaces w')
              = Some (case stored ns_key (''project-'' @ Name (PMeta p)) (namespaces w) of
                        None \<Rightarrow>
                          \<lparr>NsMeta = emptyMeta
                             \<lparr>Name := ''project-'' @ Name (PMeta p),
                              Labels := managedLabels (Name (PMeta p)),
                              OwnerReferences :=
                                [\<lparr>OwnerKind = ''Project'', OwnerName = Name (PMeta p),
                                  Controller = True\<rparr>]\<rparr>\<rparr>
                      | Some existing \<Rightarrow>
                          existing\<lparr>NsMeta := (NsMeta existing)
                                     \<lparr>Labels := managedLabels (Name (PMeta p))\<rparr>\<rparr>)
          \<and> (\<exists>sp. stored project_key (snd req) (projects w') = Some sp
                 \<and> PMeta sp = PMeta p \<and> PSpec sp = PSpec p
                 \<and> StatusNamespace (PStatus sp) = ''project-'' @ Name (PMeta p)
                 \<and> StatusPhase (PStatus sp) = ''Active''
                 \<and> VMCount (PStatus sp) = VMCount (PStatus p)))"
proof -
  note run = assms(5)[symmetric]
  have key: "project_key p = snd req" "Name (PMeta p) = snd req"
    using assms(1) stored_project_key[OF assms(1)] by (simp_all add: project_key_def)
  let ?ns = "''project-'' @ Name (PMeta p)"
  let ?w1 = "answered (GetProject (snd req)) None w"
  have p0: "pending w = None" using assms(4) by (simp add: pending_def)
  have f1: "faults ?w1 = []" using assms(4) by simp
  show ?thesis
  proof (cases "projectFinalizer \<in> set (Finalizers (PMeta p))")
    case False
    with run assms(1,2,4) key p0 show ?thesis
      by (simp add: Project_Reconcile_def Get_project_def Update_project_def api_call_def
          pending_def ContainsFinalizer_def stored_overwrite requeue_now_def no_requeue_def
          project_key_def Let_def)
  next
    case True
    obtain r w2 where rn: "reconcileNamespace p ?ns ?w1 = (r, w2)"
      by (cases "reconcileNamespace p ?ns ?w1")
    from reconcileNamespace_quiet[OF f1 rn]
    have q: "r = None" "faults w2 = []" "projects w2 = projects w"
      "stored ns_key ?ns (namespaces w2)
           = Some (case stored ns_key ?ns (namespaces w) of
                     None \<Rightarrow>
                       \<lparr>NsMeta = emptyMeta
                          \<lparr>Name := ?ns, Labels := managedLabels (Name (PMeta p)),
                           OwnerReferences :=
                             [\<lparr>OwnerKind = ''Project'', OwnerName = Name (PMeta p),
                               Controller = True\<rparr>]\<rparr>\<rparr>
                   | Some existing \<Rightarrow>
                       existing\<lparr>NsMeta := (NsMeta existing)
                                  \<lparr>Labels := managedLabels (Name (PMeta p))\<rparr>\<rparr>)"
      by simp_all
    let ?p1 = "p\<lparr>PStatus := (PStatus p)
                 \<lparr>StatusNamespace := ?ns, StatusPhase := ''Active'',
                  StatusConditions :=
                    SetStatusCondition now (StatusConditions (PStatus p))
                      \<lparr>Type = ''Ready'', CStatus = ConditionTrue,
                       Reason = ''ProjectReady'', Message = ''Project is ready'',
                       ObservedGeneration = Generation (PMeta p),
                       LastTransitionTime = None\<rparr>\<rparr>\<rparr>"
    have body: "Project_Reconcile now req w =
                  (case Status_Update_project ?p1 w2 of
                     (r, w4) \<Rightarrow> ((no_requeue, err_of r), w4))"
      using True assms(1-3) p0 rn q(1)
      by (simp add: Project_Reconcile_def Get_project_def api_call_def
          ContainsFinalizer_def reconcileRBAC_def Let_def)
    have st: "stored project_key (snd req) (projects w2) = Some p"
      using q(3) assms(1) by simp
    have k1: "project_key ?p1 = snd req" using key by (simp add: project_key_def)
    from body run st k1 q(2)
    have out: "res = no_requeue" "err = None"
      "namespaces w' = namespaces w2"
      "stored project_key (snd req) (projects w') = Some ?p1"
      by (simp_all add: Status_Update_project_def api_call_def pending_def stored_overwrite Let_def)
    from out q(4) True show ?thesis by simp
  qed
qed

theorem C4_namespace_of_workspace_witness:
  "map_option ns_key (stored ns_key ''project-demo'' (namespaces world_demo_2))
     = Some ''project-demo''
   \<and> map_option (\<lambda>sp. (StatusNamespace (PStatus sp), StatusPhase (PStatus sp),
                           VMCount (PStatus sp)))
        (stored project_key ''demo'' (projects world_demo_2))
     = Some (''project-demo'', ''Active'', 0)"
proof -
  let ?run = "Project_Reconcile 2 demo_key world_demo_1"
  have run: "?run = ((fst (fst ?run), snd (fst ?run)), snd ?run)" by simp
  from C4_namespace_of_workspace[OF demo_facts(1-4) run] demo_facts(5-8)
  obtain ns sp where
    "stored ns_key ''project-demo'' (namespaces (snd ?run)) = Some ns"
    "stored project_key ''demo'' (projects (snd ?run)) = Some sp"
    "StatusNamespace (PStatus sp) = ''project-demo''"
    "StatusPhase (PStatus sp) = ''Active''"
    "VMCount (PStatus sp) = 0"
    by auto
  then show ?thesis
    using stored_ns_key[of "''project-demo''" "namespaces (snd ?run)" ns]
    by (simp add: world_demo_2_def)
qed

section \<open>C5: the status projection\<close>

text \<open>
  Claim C5. When the store answers the fetch of the external VM instance: if the
  instance is absent, the status phase becomes \<open>Pending\<close> and ready becomes false;
  if it is present, the phase the instance reports is copied into the status and ready
  is set to whether that phase is \<open>Running\<close>, and the node name and the address of
  the first interface are copied when the instance reports them. The status meant is the
  one the call leaves in the reconciler's object, which is also the stored object when
  the status write succeeds.
\<close>

theorem C5_status_projection:
  assumes "updateVMStatusFromVMI now vm w = (r, vm', w')" and "pending w = None"
  shows "(vmis w (vm_key vm) = None \<longrightarrow>
            Phase (Status vm') = ''Pending'' \<and> Ready (Status vm') = False)
       \<and> (\<forall>vmi. vmis w (vm_key vm) = Some vmi \<longrightarrow>
            (\<forall>p. NestedField (JObject vmi) [''status'', ''phase''] = Some (JString p) \<longrightarrow>
                 Phase (Status vm') = p \<and> Ready (Status vm') = (p = ''Running''))
          \<and> (\<forall>n. NestedField (JObject vmi) [''status'', ''nodeName''] = Some (JString n) \<longrightarrow>
                 Node (Status vm') = n)
          \<and> (\<forall>iface rest ip.
                 NestedField (JObject vmi) [''status'', ''interfaces'']
                   = Some (JList (JObject iface # rest)) \<longrightarrow>
                 map_of iface ''ipAddress'' = Some (JString ip) \<longrightarrow>
                 IPAddress (Status vm') = ip))
       \<and> (r = None \<longrightarrow> stored vm_key (vm_key vm) (vms w') = Some vm')"
proof (intro conjI impI allI)
  assume "vmis w (vm_key vm) = None"
  from updateVMStatusFromVMI_absent[OF assms this]
  show "Phase (Status vm') = ''Pending''" "Ready (Status vm') = False" by simp_all
next
  fix vmi p
  assume "vmis w (vm_key vm) = Some vmi"
    and "NestedField (JObject vmi) [''status'', ''phase''] = Some (JString p)"
  with updateVMStatusFromVMI_present[OF assms]
    statusFromVMI_phase[of vmi p now vm, folded NestedField_status]
  show "Phase (Status vm') = p" "Ready (Status vm') = (p = ''Running'')"
    by simp_all
next
  fix vmi n
  assume "vmis w (vm_key vm) = Some vmi"
    and "NestedField (JObject vmi) [''status'', ''nodeName''] = Some (JString n)"
  with updateVMStatusFromVMI_present[OF assms]
    statusFromVMI_node[of vmi n now vm, folded NestedField_status]
  show "Node (Status vm') = n"
    by simp
next
  fix vmi iface rest ip
  assume "vmis w (vm_key vm) = Some vmi"
    and "NestedField (JObject vmi) [''status'', ''interfaces'']
           = Some (JList (JObject iface # rest))"
    and "map_of iface ''ipAddress'' = Some (JString ip)"
  with updateVMStatusFromVMI_present[OF assms]
    statusFromVMI_ip[of vmi iface rest ip now vm, folded NestedField_status]
  show "IPAddress (Status vm') = ip"
    by simp
next
  assume "r = None"
  with assms(1) show "stored vm_key (vm_key vm) (vms w') = Some vm'"
    by (simp add: updateVMStatusFromVMI_stored)
qed

theorem C5_status_projection_witness:
  "Phase (Status (fst (snd (updateVMStatusFromVMI 7 scenarioB_vm world_vm)))) = ''Pending''
   \<and> Ready (Status (fst (snd (updateVMStatusFromVMI 7 scenarioB_vm world_vm)))) = False
   \<and> Phase (Status (fst (snd (updateVMStatusFromVMI 7 scenarioB_vm world_running)))) = ''Running''
   \<and> Ready (Status (fst (snd (updateVMStatusFromVMI 7 scenarioB_vm world_running)))) = True
   \<and> Node (Status (fst (snd (updateVMStatusFromVMI 7 scenarioB_vm world_running)))) = ''node-1''
   \<and> IPAddress (Status (fst (snd (updateVMStatusFromVMI 7 scenarioB_vm world_running))))
       = ''10.0.0.5''"
proof -
  let ?a = "updateVMStatusFromVMI 7 scenarioB_vm world_vm"
  let ?b = "updateVMStatusFromVMI 7 scenarioB_vm world_running"
  have absent: "vmis world_vm (vm_key scenarioB_vm) = None"
    by (simp add: world_vm_def world0_def)
  have present: "vmis world_running (vm_key scenarioB_vm) = Some running_vmi"
    by (simp add: world_running_def)
  have fields:
    "NestedField (JObject running_vmi) [''status'', ''phase''] = Some (JString ''Running'')"
    "NestedField (JObject running_vmi) [''status'', ''nodeName''] = Some (JString ''node-1'')"
    "NestedField (JObject running_vmi) [''status'', ''interfaces'']
       = Some (JList (JObject [(''ipAddress'', JString ''10.0.0.5'')] # []))"
    "map_of [(''ipAddress'', JString ''10.0.0.5'')] ''ipAddress'' = Some (JString ''10.0.0.5'')"
    by (simp_all add: running_vmi_def)
  from C5_status_projection[of 7 scenarioB_vm world_vm "fst ?a" "fst (snd ?a)" "snd (snd ?a)"]
    absent
  have a: "Phase (Status (fst (snd ?a))) = ''Pending''" "Ready (Status (fst (snd ?a))) = False"
    by simp_all
  from C5_status_projection[of 7 scenarioB_vm world_running "fst ?b" "fst (snd ?b)"
      "snd (snd ?b)"] present fields
  have b: "Phase (Status (fst (snd ?b))) = ''Running''"
    "Ready (Status (fst (snd ?b))) = True"
    "Node (Status (fst (snd ?b))) = ''node-1''"
    "IPAddress (Status (fst (snd ?b))) = ''10.0.0.5''"
    by simp_all
  from a b show ?thesis by simp
qed

section \<open>C6: the Ready condition\<close>

text \<open>
  Claim C6. Whenever the fetch of the external VM instance succeeds, the status
  projection sets the condition of type \<open>Ready\<close> to true (reason \<open>VMRunning\<close>),
  whatever phase the instance reports, phases other than \<open>Running\<close> included.
\<close>

theorem C6_ready_condition_always_true:
  assumes "updateVMStatusFromVMI now vm w = (r, vm', w')" and "pending w = None"
    and "vmis w (vm_key vm) = Some vmi"
  shows "\<exists>c. FindStatusCondition (Conditions (Status vm')) ''Ready'' = Some c
           \<and> CStatus c = ConditionTrue \<and> Reason c = ''VMRunning''
           \<and> ObservedGeneration c = Generation (Meta vm)"
  using updateVMStatusFromVMI_present[OF assms] statusFromVMI_ready_condition[of now vm vmi]
  by simp

theorem C6_ready_condition_always_true_witness:
  "Phase (Status (fst (snd (updateVMStatusFromVMI 7 scenarioB_vm world_scheduling))))
     = ''Scheduling''
   \<and> Ready (Status (fst (snd (updateVMStatusFromVMI 7 scenarioB_vm world_scheduling)))) = False
   \<and> (\<exists>c. FindStatusCondition
              (Conditions (Status (fst (snd (updateVMStatusFromVMI 7 scenarioB_vm
                                              world_scheduling))))) ''Ready'' = Some c
          \<and> CStatus c = ConditionTrue \<and> Reason c = ''VMRunning'')"
proof -
  let ?a = "updateVMStatusFromVMI 7 scenarioB_vm world_scheduling"
  have present: "vmis world_scheduling (vm_key scenarioB_vm) = Some scheduling_vmi"
    by (simp add: world_scheduling_def)
  have run: "?a = (fst ?a, fst (snd ?a), snd (snd ?a))" by simp
  from C6_ready_condition_always_true[OF run _ present]
  have cond: "\<exists>c. FindStatusCondition (Conditions (Status (fst (snd ?a)))) ''Ready'' = Some c
           \<and> CStatus c = ConditionTrue \<and> Reason c = ''VMRunning''"
    by auto
  have "Status (fst (snd ?a)) = Status (statusFromVMI 7 scenarioB_vm scheduling_vmi)"
    using updateVMStatusFromVMI_present[OF run _ present] by simp
  then have "Phase (Status (fst (snd ?a))) = ''Scheduling''"
    "Ready (Status (fst (snd ?a))) = False"
    using statusFromVMI_phase[of scheduling_vmi "''Scheduling''" 7 scenarioB_vm]
    by (simp_all add: scheduling_vmi_def NestedMap_def)
  with cond show ?thesis by simp
qed

section \<open>C7: which failures an invocation returns\<close>






section \<open>C8: a reboot is a stop followed by a start\<close>




section \<open>C9: the access level of a member's role binding\<close>

text \<open>
  Claim C9. The access level of the role binding the reconciler creates or updates for a
  declared member is fixed by a total mapping of the member's role: owner and admin give
  admin, developer gives edit, and every other role string (viewer, or one that is not
  recognised) gives view. The theorem states the mapping, that the binding built for a
  member names the mapped cluster role, and that after a run of \<open>reconcileRBAC\<close> that
  returned no error every member's binding in the store names the cluster role mapped
  from the role of a declared member of that username (the member itself when usernames
  are not repeated; the last one declared otherwise).
\<close>

theorem C9_role_mapping:
  "getRoleForMember role =
     (if role = ''owner'' \<or> role = ''admin'' then ''admin''
      else if role = ''developer'' then ''edit'' else ''view'')
   \<and> RoleName (RoleRefOf (memberBinding p ns m)) = getRoleForMember (Role m)
   \<and> (reconcileRBAC p ns w = (None, w') \<longrightarrow>
        (\<forall>m \<in> set (Members (PSpec p)).
           \<exists>rb m'. m' \<in> set (Members (PSpec p)) \<and> Username m' = Username m
             \<and> stored rb_key (ns, Name (PMeta p) @ ''-'' @ Username m) (rolebindings w')
                 = Some rb
             \<and> RoleKind (RoleRefOf rb) = ''ClusterRole''
             \<and> RoleName (RoleRefOf rb) = getRoleForMember (Role m')))"
proof (intro conjI impI ballI)
  show "getRoleForMember role =
     (if role = ''owner'' \<or> role = ''admin'' then ''admin''
      else if role = ''developer'' then ''edit'' else ''view'')"
    by (simp add: getRoleForMember_def)
  show "RoleName (RoleRefOf (memberBinding p ns m)) = getRoleForMember (Role m)"
    by (simp add: memberBinding_def)
next
  fix m assume run: "reconcileRBAC p ns w = (None, w')" and m: "m \<in> set (Members (PSpec p))"
  from run have "reconcileMembers p ns (Members (PSpec p)) w = (None, w')"
    by (simp add: reconcileRBAC_def)
  from reconcileMembers_bindings[OF this m] obtain rb m' where
    "m' \<in> set (Members (PSpec p))" "Username m' = Username m"
    "stored rb_key (member_key p ns m) (rolebindings w') = Some rb"
    "RoleRefOf rb = RoleRefOf (memberBinding p ns m')"
    by blast
  then show "\<exists>rb m'. m' \<in> set (Members (PSpec p)) \<and> Username m' = Username m
             \<and> stored rb_key (ns, Name (PMeta p) @ ''-'' @ Username m) (rolebindings w')
                 = Some rb
             \<and> RoleKind (RoleRefOf rb) = ''ClusterRole''
             \<and> RoleName (RoleRefOf rb) = getRoleForMember (Role m')"
    by (auto simp: member_key_def memberBinding_def intro!: exI[of _ rb] exI[of _ m'])
qed

theorem C9_role_mapping_witness:
  "getRoleForMember ''guest'' = ''view''
   \<and> (\<exists>rb. stored rb_key (''project-team'', ''team-bob'')
              (rolebindings (snd (reconcileRBAC team_project ''project-team'' world0))) = Some rb
          \<and> RoleKind (RoleRefOf rb) = ''ClusterRole''
          \<and> RoleName (RoleRefOf rb) = ''edit'')"
proof -
  let ?w' = "snd (reconcileRBAC team_project ''project-team'' world0)"
  note inst = C9_role_mapping[of "''guest''" team_project "''project-team''" bob world0 ?w']
  have run: "reconcileRBAC team_project ''project-team'' world0 = (None, ?w')"
    using team_run by (simp add: prod_eq_iff)
  have mem: "bob \<in> set (Members (PSpec team_project))"
    by (simp add: team_project_def bob_def)
  from inst have guest: "getRoleForMember ''guest'' = ''view''" by simp
  from inst run mem obtain rb m' where
    m': "m' \<in> set (Members (PSpec team_project))" "Username m' = Username bob"
    and rb: "stored rb_key (''project-team'', Name (PMeta team_project) @ ''-'' @ Username bob)
               (rolebindings ?w') = Some rb"
      "RoleKind (RoleRefOf rb) = ''ClusterRole''"
      "RoleName (RoleRefOf rb) = getRoleForMember (Role m')"
    by blast
  from m' have "m' = bob" by (auto simp: team_project_def bob_def)
  then have "RoleName (RoleRefOf rb) = ''edit''"
    using rb(3) by (simp add: bob_def getRoleForMember_def)
  moreover have "Name (PMeta team_project) @ ''-'' @ Username bob = ''team-bob''"
    by (simp add: team_project_def bob_def emptyMeta_def)
  ultimately show ?thesis using guest rb(1,2) by auto
qed

section \<open>C10: a reboot request for a VM without external object\<close>

text \<open>
  Claim C10. For a VirtualMachine that carries the finalizer, no deletion timestamp and
  the reboot annotation set to \<open>true\<close>, but whose external KubeVirt VM object does not
  exist, every invocation of the reconciler returns an error and changes neither the
  resource (the annotation stays) nor the external objects (none is created): the only
  calls it makes are the fetch of the resource and the fetch of the external object, so
  the synchronisation step is never reached. The same holds for every sequence of retries;
  when the store imposes no fault of its own, each of them fails with the not-found error
  of the external object, wrapped by \<open>rebootVM\<close>.
\<close>

theorem C10_reboot_without_external_object:
  assumes "stored vm_key req (vms w) = Some vm"
    and "DeletionTimestamp (Meta vm) = None"
    and "vmFinalizer \<in> set (Finalizers (Meta vm))"
    and "rebootRequested vm"
    and "kvvms w req = None"
    and "VM_Reconcile_retries ssa ts req w = (results, w')"
  shows "length results = length ts
     \<and> (\<forall>r \<in> set results. fst r = no_requeue \<and> snd r \<noteq> None)
     \<and> vms w' = vms w \<and> kvvms w' = kvvms w
     \<and> (\<exists>cs. calls w' = calls w @ cs
            \<and> (\<forall>c \<in> set cs. fst c = GetVM req \<or> fst c = GetKubeVirtVM req))
     \<and> (faults w = [] \<longrightarrow>
           (\<forall>r \<in> set results.
              snd r = Some (Wrapped ''failed to get KubeVirt VM'' NotFound)))"
  using assms
proof (induction ts arbitrary: w results)
  case Nil
  then show ?case by simp
next
  case (Cons now ts)
  obtain res err w1 where step: "VM_Reconcile ssa now req w = ((res, err), w1)"
    by (cases "VM_Reconcile ssa now req w") auto
  obtain rs w2 where rest: "VM_Reconcile_retries ssa ts req w1 = (rs, w2)"
    by (cases "VM_Reconcile_retries ssa ts req w1")
  from Cons.prems(6) step rest have res: "results = (res, err) # rs" "w' = w2" by simp_all
  note one = reboot_blocked[OF Cons.prems(1-5) step]
  from one have same: "vms w1 = vms w" "kvvms w1 = kvvms w" by simp_all
  from one obtain cs1 where cs1: "calls w1 = calls w @ cs1"
      "\<forall>c \<in> set cs1. fst c = GetVM req \<or> fst c = GetKubeVirtVM req"
    by auto
  from one have err: "res = no_requeue" "err \<noteq> None" by auto
  have nf: "faults w = [] \<longrightarrow>
              err = Some (Wrapped ''failed to get KubeVirt VM'' NotFound) \<and> faults w1 = []"
  proof
    assume f: "faults w = []"
    then have "pending w = None" "pending (answered (GetVM req) None w) = None"
      by (simp_all add: pending_def)
    with one f show "err = Some (Wrapped ''failed to get KubeVirt VM'' NotFound) \<and> faults w1 = []"
      by auto
  qed
  have pre1: "stored vm_key req (vms w1) = Some vm" "kvvms w1 req = None"
    using Cons.prems(1,5) same by simp_all
  from rest res(2) have rest': "VM_Reconcile_retries ssa ts req w1 = (rs, w')" by simp
  note ih = Cons.IH[OF pre1(1) Cons.prems(2-4) pre1(2) rest']
  from ih obtain cs2 where cs2: "calls w' = calls w1 @ cs2"
      "\<forall>c \<in> set cs2. fst c = GetVM req \<or> fst c = GetKubeVirtVM req"
    by auto
  have "calls w' = calls w @ (cs1 @ cs2)"
    "\<forall>c \<in> set (cs1 @ cs2). fst c = GetVM req \<or> fst c = GetKubeVirtVM req"
    using cs1 cs2 by auto
  then have hist: "\<exists>cs. calls w' = calls w @ cs
            \<and> (\<forall>c \<in> set cs. fst c = GetVM req \<or> fst c = GetKubeVirtVM req)"
    by blast
  from ih res same err nf hist show ?case by auto
qed

theorem C10_reboot_without_external_object_witness:
  "map snd (fst (VM_Reconcile_retries merge_apply [1, 2, 3] vm1_key world_reboot_orphan))
     = replicate 3 (Some (Wrapped ''failed to get KubeVirt VM'' NotFound))
   \<and> kvvms (snd (VM_Reconcile_retries merge_apply [1, 2, 3] vm1_key world_reboot_orphan)) vm1_key
     = None
   \<and> vms (snd (VM_Reconcile_retries merge_apply [1, 2, 3] vm1_key world_reboot_orphan))
     = [reboot_vm]"
proof -
  let ?run = "VM_Reconcile_retries merge_apply [1, 2, 3] vm1_key world_reboot_orphan"
  have run: "?run = (fst ?run, snd ?run)" by simp
  note c10 = C10_reboot_without_external_object[OF orphan_facts(1-5) run]
  from c10 orphan_facts(6) have len: "length (map snd (fst ?run)) = 3"
    and all: "\<And>y. y \<in> set (map snd (fst ?run)) \<Longrightarrow>
                y = Some (Wrapped ''failed to get KubeVirt VM'' NotFound)"
    by auto
  from replicate_eqI[OF len all]
  have "map snd (fst ?run) = replicate 3 (Some (Wrapped ''failed to get KubeVirt VM'' NotFound))"
    by simp
  moreover from c10 orphan_facts(5) have "kvvms (snd ?run) vm1_key = None" by simp
  moreover from c10 have "vms (snd ?run) = [reboot_vm]"
    by (simp add: world_reboot_orphan_def)
  ultimately show ?thesis by simp
qed



end
